theory Spec2Isabelle
  imports Complex_Main "HOL-Library.Product_Lexorder"
begin

section \<open>Text: Python strings as lists of code points\<close>

text \<open>
  A Python \<open>str\<close> is a sequence of Unicode code points, and the regular expressions of the
  source classify code points (\<open>\d\<close>, \<open>\s\<close>, \<open>\w\<close>, case folding). The model covers
  the Latin-1 repertoire (code points 0 to 255, one \<open>char\<close> each) together with the three
  other code points the source itself writes into its output: U+2013 and U+02C6, which
  follow U+00E2 in the default \<open>redaction_char\<close> of \<open>pii_filter.py\<close>, and U+25CF, the
  bullet of \<open>_redact_phone_display\<close>. On this repertoire the classes below are the ones
  Python's \<open>re\<close> and \<open>str\<close> use.
\<close>

datatype uchar = Lat char | EnDash | ModCircumflex | BlackCircle

type_synonym ustring = "uchar list"

fun cp :: "uchar \<Rightarrow> int" where
  "cp (Lat c) = of_char c"
| "cp EnDash = 0x2013"
| "cp ModCircumflex = 0x2C6"
| "cp BlackCircle = 0x25CF"

definition lit :: "string \<Rightarrow> ustring" where
  "lit s = map Lat s"

definition in_range :: "char \<Rightarrow> char \<Rightarrow> uchar \<Rightarrow> bool" where
  "in_range a b u = (of_char a \<le> cp u \<and> cp u \<le> of_char b)"

definition is_digit :: "uchar \<Rightarrow> bool" where
  "is_digit u = (48 \<le> cp u \<and> cp u \<le> 57)"

definition is_space :: "uchar \<Rightarrow> bool" where
  "is_space u = ((9 \<le> cp u \<and> cp u \<le> 13) \<or> (28 \<le> cp u \<and> cp u \<le> 32)
                 \<or> cp u = 0x85 \<or> cp u = 0xA0)"

definition is_ascii_letter :: "uchar \<Rightarrow> bool" where
  "is_ascii_letter u = (in_range CHR ''A'' CHR ''Z'' u \<or> in_range CHR ''a'' CHR ''z'' u)"

text \<open>\<open>\w\<close>: alphanumeric code points and the underscore.\<close>

definition is_word :: "uchar \<Rightarrow> bool" where
  "is_word u = (is_digit u \<or> is_ascii_letter u \<or> cp u = 0x5F
       \<or> cp u = 0xAA \<or> cp u = 0xB2 \<or> cp u = 0xB3 \<or> cp u = 0xB5 \<or> cp u = 0xB9 \<or> cp u = 0xBA
       \<or> (0xBC \<le> cp u \<and> cp u \<le> 0xBE) \<or> (0xC0 \<le> cp u \<and> cp u \<le> 0xD6)
       \<or> (0xD8 \<le> cp u \<and> cp u \<le> 0xF6) \<or> (0xF8 \<le> cp u \<and> cp u \<le> 0xFF)
       \<or> u = ModCircumflex)"

text \<open>\<open>str.lower()\<close>, one code point at a time.\<close>

fun lower_char :: "uchar \<Rightarrow> uchar" where
  "lower_char (Lat c) =
     (let n = (of_char c :: int)
      in if (65 \<le> n \<and> n \<le> 90) \<or> (192 \<le> n \<and> n \<le> 222 \<and> n \<noteq> 215)
         then Lat (char_of (n + 32)) else Lat c)"
| "lower_char u = u"

definition py_lower :: "ustring \<Rightarrow> ustring" where
  "py_lower s = map lower_char s"

text \<open>\<open>s[a:b]\<close> for \<open>0 \<le> a \<le> b\<close>, and \<open>s * n\<close>, which is empty for \<open>n \<le> 0\<close>.\<close>

definition slice :: "ustring \<Rightarrow> nat \<Rightarrow> nat \<Rightarrow> ustring" where
  "slice s a b = take (b - a) (drop a s)"

definition py_repeat :: "ustring \<Rightarrow> int \<Rightarrow> ustring" where
  "py_repeat s n = concat (replicate (nat n) s)"

text \<open>\<open>s[-k:]\<close> for \<open>k > 0\<close>: the last \<open>k\<close> items, all of \<open>s\<close> when it is shorter.\<close>

definition last_n :: "nat \<Rightarrow> 'a list \<Rightarrow> 'a list" where
  "last_n k s = drop (length s - k) s"

text \<open>\<open>needle in s\<close> on strings.\<close>

fun starts_with :: "'a list \<Rightarrow> 'a list \<Rightarrow> bool" where
  "starts_with [] s = True"
| "starts_with (x # xs) [] = False"
| "starts_with (x # xs) (y # ys) = (x = y \<and> starts_with xs ys)"

fun contains :: "'a list \<Rightarrow> 'a list \<Rightarrow> bool" where
  "contains needle [] = (needle = [])"
| "contains needle (y # ys) = (starts_with needle (y # ys) \<or> contains needle ys)"

section \<open>Regular expressions with the matching order of a backtracking engine\<close>

text \<open>
  \<open>Rep m n r\<close> is the greedy quantifier \<open>r{m,n}\<close> (\<open>n = None\<close>: no upper bound), \<open>WordB\<close>
  is \<open>\b\<close>. Groups are not constructors: where the source reads a group, the model
  splits the pattern at the group's end.
\<close>

datatype regex = Sym "uchar \<Rightarrow> bool" | Eps | WordB | Seq regex regex | Alt regex regex
  | Rep nat "nat option" regex

text \<open>
  A cursor is a position in the text under scan: the character before it, if any, and
  the text from it on.
\<close>

type_synonym cursor = "uchar option \<times> ustring"

text \<open>
  \<open>reps f m k c\<close>: the cursors after \<open>m\<close> mandatory and at most \<open>k\<close> further greedy
  iterations of a body that leads from a cursor \<open>d\<close> to the cursors \<open>f d\<close>, in the order a
  backtracking engine tries them.
\<close>

fun reps :: "(cursor \<Rightarrow> cursor list) \<Rightarrow> nat \<Rightarrow> nat \<Rightarrow> cursor \<Rightarrow> cursor list" where
  "reps f 0 0 c = [c]"
| "reps f 0 (Suc k) c = concat (map (reps f 0 k) (f c)) @ [c]"
| "reps f (Suc m) k c = concat (map (reps f m k) (f c))"

definition word_before :: "cursor \<Rightarrow> bool" where
  "word_before c = (case fst c of None \<Rightarrow> False | Some u \<Rightarrow> is_word u)"

definition word_after :: "cursor \<Rightarrow> bool" where
  "word_after c = (case snd c of [] \<Rightarrow> False | u # _ \<Rightarrow> is_word u)"

definition at_boundary :: "cursor \<Rightarrow> bool" where
  "at_boundary c = (word_before c \<noteq> word_after c)"

text \<open>
  \<open>ends r c\<close>: every cursor at which a match of \<open>r\<close> that starts at \<open>c\<close> can end, most
  preferred first. The head of the list is the end of the match Python reports. Every
  quantified body of the source's patterns consumes at least one character, so an
  unbounded quantifier has at most as many further iterations as characters are left.
\<close>

primrec ends :: "regex \<Rightarrow> cursor \<Rightarrow> cursor list" where
  "ends (Sym P) = (\<lambda>c. case snd c of [] \<Rightarrow> [] | u # us \<Rightarrow> if P u then [(Some u, us)] else [])"
| "ends Eps = (\<lambda>c. [c])"
| "ends WordB = (\<lambda>c. if at_boundary c then [c] else [])"
| "ends (Seq a b) = (\<lambda>c. concat (map (ends b) (ends a c)))"
| "ends (Alt a b) = (\<lambda>c. ends a c @ ends b c)"
| "ends (Rep m n a) =
     (\<lambda>c. reps (ends a) m (case n of None \<Rightarrow> length (snd c) | Some n' \<Rightarrow> n' - m) c)"

text \<open>
  \<open>pattern.finditer(t)\<close>: the spans \<open>(start, end)\<close> of the non-overlapping matches, left
  to right. \<open>finditer_from r c pos\<close> scans from the cursor \<open>c\<close>, which is at offset \<open>pos\<close>.
\<close>

function finditer_from :: "regex \<Rightarrow> cursor \<Rightarrow> nat \<Rightarrow> (nat \<times> nat) list" where
  "finditer_from r c pos =
     (case ends r c of
        [] \<Rightarrow> (case snd c of [] \<Rightarrow> [] | u # us \<Rightarrow> finditer_from r (Some u, us) (Suc pos))
      | c' # _ \<Rightarrow>
          (pos, pos + (length (snd c) - length (snd c'))) #
          (if length (snd c') < length (snd c)
           then finditer_from r c' (pos + (length (snd c) - length (snd c')))
           else case snd c of [] \<Rightarrow> [] | u # us \<Rightarrow> finditer_from r (Some u, us) (Suc pos)))"
  by pat_completeness auto
termination
  by (relation "measure (\<lambda>(r, c, pos). length (snd c))") auto

declare finditer_from.simps [simp del]

definition finditer :: "regex \<Rightarrow> ustring \<Rightarrow> (nat \<times> nat) list" where
  "finditer r t = finditer_from r (None, t) 0"

text \<open>\<open>re.search\<close>: the first match; \<open>re.match\<close>: the end of a match at position 0.\<close>

definition re_search :: "regex \<Rightarrow> ustring \<Rightarrow> (nat \<times> nat) option" where
  "re_search r t = (case finditer r t of [] \<Rightarrow> None | m # _ \<Rightarrow> Some m)"

definition re_match :: "regex \<Rightarrow> ustring \<Rightarrow> nat option" where
  "re_match r t =
     (case ends r (None, t) of [] \<Rightarrow> None | c' # _ \<Rightarrow> Some (length t - length (snd c')))"

fun seqs :: "regex list \<Rightarrow> regex" where
  "seqs [] = Eps"
| "seqs [r] = r"
| "seqs (r # rs) = Seq r (seqs rs)"

fun alts :: "regex list \<Rightarrow> regex" where
  "alts [] = Sym (\<lambda>_. False)"
| "alts [r] = r"
| "alts (r # rs) = Alt r (alts rs)"

definition chr :: "char \<Rightarrow> regex" where
  "chr c = Sym (\<lambda>u. u = Lat c)"

definition str :: "string \<Rightarrow> regex" where
  "str s = seqs (map chr s)"

text \<open>A literal under \<open>re.IGNORECASE\<close>.\<close>

definition ichr :: "char \<Rightarrow> regex" where
  "ichr c = Sym (\<lambda>u. lower_char u = lower_char (Lat c))"

definition istr :: "string \<Rightarrow> regex" where
  "istr s = seqs (map ichr s)"

definition digit :: regex where
  "digit = Sym is_digit"

definition space :: regex where
  "space = Sym is_space"

definition opt :: "regex \<Rightarrow> regex" where
  "opt r = Rep 0 (Some 1) r"

definition star :: "regex \<Rightarrow> regex" where
  "star r = Rep 0 None r"

definition plus :: "regex \<Rightarrow> regex" where
  "plus r = Rep 1 None r"

definition times :: "nat \<Rightarrow> regex \<Rightarrow> regex" where
  "times n r = Rep n (Some n) r"

section \<open>The PII redaction filter (\<open>app/utils/pii_filter.py\<close>)\<close>

datatype PIIType = MEDICARE | PHONE | EMAIL | DOB | NAME | ADDRESS | CREDIT_CARD | TFN
  | HEALTH_ID | SSN

record PIIMatch =
  pii_type :: PIIType
  original_value :: ustring
  start_pos :: int
  end_pos :: int
  redacted_value :: ustring

datatype error = IndexError | KeyError | TypeError | AttributeError | JSONDecodeError

text \<open>
  The default of the constructor's \<open>redaction_char\<close>, as the source file spells it: the
  three code points U+00E2, U+2013, U+02C6.
\<close>

definition default_redaction_char :: ustring where
  "default_redaction_char = [Lat (CHR 0xE2), EnDash, ModCircumflex]"

subsection \<open>\<open>_compile_patterns\<close>\<close>

definition sep_space_dash :: regex where
  "sep_space_dash = Sym (\<lambda>u. is_space u \<or> u = Lat CHR ''-'')"

definition sep_dash_dot_space :: regex where
  "sep_dash_dot_space = Sym (\<lambda>u. u = Lat CHR ''-'' \<or> u = Lat CHR ''.'' \<or> is_space u)"

text \<open>\<^verbatim>\<open>\b(\d{4}[\s-]?\d{5}[\s-]?\d{1,2})\b\<close>\<close>

definition medicare_pattern :: regex where
  "medicare_pattern =
     seqs [WordB, times 4 digit, opt sep_space_dash, times 5 digit, opt sep_space_dash,
           Rep 1 (Some 2) digit, WordB]"

text \<open>
  \<^verbatim>\<open>(?:\+?61[-.\s]?|0)(?:4\d{2}[-.\s]?\d{3}[-.\s]?\d{3}|[2-9]\d{1}[-.\s]?\d{4}[-.\s]?\d{4}|\(\d{2}\)[-.\s]?\d{4}[-.\s]?\d{4})\<close>
\<close>

definition phone_pattern :: regex where
  "phone_pattern =
     Seq (Alt (seqs [opt (chr CHR ''+''), str ''61'', opt sep_dash_dot_space]) (chr CHR ''0''))
       (alts [seqs [chr CHR ''4'', times 2 digit, opt sep_dash_dot_space, times 3 digit,
                    opt sep_dash_dot_space, times 3 digit],
              seqs [Sym (in_range CHR ''2'' CHR ''9''), times 1 digit, opt sep_dash_dot_space,
                    times 4 digit, opt sep_dash_dot_space, times 4 digit],
              seqs [chr CHR ''('', times 2 digit, chr CHR '')'', opt sep_dash_dot_space,
                    times 4 digit, opt sep_dash_dot_space, times 4 digit]])"

text \<open>\<^verbatim>\<open>\b[A-Za-z0-9._%+-]+@[A-Za-z0-9.-]+\.[A-Z|a-z]{2,}\b\<close>\<close>

definition email_local_char :: "uchar \<Rightarrow> bool" where
  "email_local_char u = (is_ascii_letter u \<or> is_digit u \<or> u \<in> set (lit ''._%+-''))"

definition email_pattern :: regex where
  "email_pattern =
     seqs [WordB, plus (Sym email_local_char), chr CHR ''@'',
           plus (Sym (\<lambda>u. is_ascii_letter u \<or> is_digit u \<or> u \<in> set (lit ''.-''))),
           chr CHR ''.'',
           Rep 2 None (Sym (\<lambda>u. is_ascii_letter u \<or> u = Lat CHR ''|'')), WordB]"

definition month :: regex where
  "month = alts (map istr [''January'', ''February'', ''March'', ''April'', ''May'', ''June'',
     ''July'', ''August'', ''September'', ''October'', ''November'', ''December''])"

definition dash_slash :: regex where
  "dash_slash = Sym (\<lambda>u. u = Lat CHR ''-'' \<or> u = Lat CHR ''/'')"

text \<open>
  \<open>dob_patterns\<close>: the cue pattern (compiled with \<open>re.IGNORECASE\<close>), then
  \<^verbatim>\<open>\b(\d{2}/\d{2}/\d{4})\b\<close> and \<^verbatim>\<open>\b(\d{4}-\d{2}-\d{2})\b\<close>.
\<close>

definition dob_patterns :: "regex list" where
  "dob_patterns =
     [seqs [alts [seqs [istr ''date'', plus space, istr ''of'', plus space, istr ''birth''],
                  istr ''DOB'',
                  seqs [istr ''d.o.b'', opt (ichr CHR ''.'')],
                  seqs [istr ''born'', plus space, istr ''on''],
                  istr ''birthday''],
            star space,
            opt (Alt (Seq (istr ''is'') (plus space)) (Seq (ichr CHR '':'') (star space))),
            alts [seqs [Rep 1 (Some 2) digit, dash_slash, Rep 1 (Some 2) digit, dash_slash,
                        Rep 2 (Some 4) digit],
                  seqs [month, plus space, Rep 1 (Some 2) digit, opt (ichr CHR '',''),
                        plus space, times 4 digit],
                  seqs [Rep 1 (Some 2) digit, plus space, month, plus space, times 4 digit]]],
      seqs [WordB, times 2 digit, chr CHR ''/'', times 2 digit, chr CHR ''/'', times 4 digit,
            WordB],
      seqs [WordB, times 4 digit, chr CHR ''-'', times 2 digit, chr CHR ''-'', times 2 digit,
            WordB]]"

text \<open>\<^verbatim>\<open>\b(?:\d{4}[-\s]?){3,4}\d{1,4}\b\<close>\<close>

definition credit_card_pattern :: regex where
  "credit_card_pattern =
     seqs [WordB, Rep 3 (Some 4) (Seq (times 4 digit) (opt sep_space_dash)),
           Rep 1 (Some 4) digit, WordB]"

text \<open>\<^verbatim>\<open>\b\d{3}[-\s]?\d{3}[-\s]?\d{3}\b\<close>\<close>

definition tfn_pattern :: regex where
  "tfn_pattern =
     seqs [WordB, times 3 digit, opt sep_space_dash, times 3 digit, opt sep_space_dash,
           times 3 digit, WordB]"

text \<open>A capitalised word under \<open>re.IGNORECASE\<close>: \<^verbatim>\<open>[A-Z][a-z]+\<close> matches any letters.\<close>

definition iword :: regex where
  "iword = Seq (Sym is_ascii_letter) (plus (Sym is_ascii_letter))"

definition cword :: regex where
  "cword = Seq (Sym (in_range CHR ''A'' CHR ''Z'')) (plus (Sym (in_range CHR ''a'' CHR ''z'')))"

text \<open>
  \<^verbatim>\<open>\b\d+\s+[A-Z][a-z]+(?:\s+[A-Z][a-z]+)*\s+(?:Street|St|...|Circuit)\b\<close>, compiled with
  \<open>re.IGNORECASE\<close>.
\<close>

definition address_pattern :: regex where
  "address_pattern =
     seqs [WordB, plus digit, plus space, iword, star (Seq (plus space) iword), plus space,
           alts (map istr [''Street'', ''St'', ''Road'', ''Rd'', ''Avenue'', ''Ave'', ''Drive'',
             ''Dr'', ''Lane'', ''Ln'', ''Court'', ''Ct'', ''Place'', ''Pl'', ''Crescent'',
             ''Cres'', ''Boulevard'', ''Blvd'', ''Way'', ''Close'', ''Circuit'']),
           WordB]"

text \<open>
  \<open>name_patterns\<close>: the cue pattern (with \<open>re.IGNORECASE\<close>) and the title pattern
  \<^verbatim>\<open>\b(?:Mrs?\.?|Ms\.?|Dr\.?|Miss)\s+([A-Z][a-z]+(?:\s+[A-Z][a-z]+){0,2})\b\<close>.
\<close>

definition apostrophe :: char where
  "apostrophe = CHR 0x27"

definition name_patterns :: "regex list" where
  "name_patterns =
     [seqs [alts [seqs [istr ''my'', plus space, istr ''name'', plus space, istr ''is''],
                  seqs [istr ''this'', plus space, istr ''is''],
                  seqs [ichr CHR ''I'', opt (ichr apostrophe), ichr CHR ''m''],
                  seqs [ichr CHR ''I'', plus space, istr ''am''],
                  seqs [istr ''name'', opt (ichr apostrophe), ichr CHR ''s''],
                  seqs [istr ''speaking'', plus space, istr ''is''],
                  seqs [istr ''patient'', plus space, istr ''name'', opt (ichr CHR '':'')]],
            plus space, iword, Rep 1 (Some 3) (Seq (plus space) iword)],
      seqs [WordB,
            alts [seqs [str ''Mr'', opt (chr CHR ''s''), opt (chr CHR ''.'')],
                  seqs [str ''Ms'', opt (chr CHR ''.'')],
                  seqs [str ''Dr'', opt (chr CHR ''.'')],
                  str ''Miss''],
            plus space, cword, Rep 0 (Some 2) (Seq (plus space) cword), WordB]]"

subsection \<open>The redaction policies\<close>

text \<open>\<open>re.sub(r'\D', '', value)\<close>\<close>

definition digits_of :: "ustring \<Rightarrow> ustring" where
  "digits_of v = filter is_digit v"

definition redact_medicare :: "ustring \<Rightarrow> ustring \<Rightarrow> ustring" where
  "redact_medicare rc v =
     (let digits = digits_of v in take 2 digits @ py_repeat rc (int (length digits) - 2))"

definition redact_phone :: "ustring \<Rightarrow> ustring \<Rightarrow> ustring" where
  "redact_phone rc v =
     (let digits = digits_of v in py_repeat rc (int (length digits) - 3) @ last_n 3 digits)"

definition redact_credit_card :: "ustring \<Rightarrow> ustring \<Rightarrow> ustring" where
  "redact_credit_card rc v =
     (let digits = digits_of v in py_repeat rc (int (length digits) - 4) @ last_n 4 digits)"

text \<open>
  \<open>_redact_email\<close>: \<open>value.split('@', 1)\<close> cuts at the first \<open>@\<close>; \<open>local[0]\<close> raises
  \<open>IndexError\<close> on an empty local part.
\<close>

definition redact_email :: "ustring \<Rightarrow> ustring \<Rightarrow> error + ustring" where
  "redact_email rc v =
     (if Lat CHR ''@'' \<in> set v then
        (let local = takeWhile (\<lambda>u. u \<noteq> Lat CHR ''@'') v;
             domain = drop (Suc (length local)) v
         in case local of
              [] \<Rightarrow> Inl IndexError
            | c # _ \<Rightarrow> Inr (c # py_repeat rc (int (length local) - 1) @ Lat CHR ''@'' # domain))
      else Inr (py_repeat rc (int (length v))))"

definition redact_generic :: "ustring \<Rightarrow> ustring \<Rightarrow> nat \<Rightarrow> ustring" where
  "redact_generic rc v keep_last =
     (if 0 < keep_last then py_repeat rc (int (length v) - int keep_last) @ last_n keep_last v
      else py_repeat rc (int (length v)))"

text \<open>
  \<open>re.sub(cue + r'.*', r'\1' + token, value)\<close> where \<open>cue\<close> is one group: every match of
  the cue followed by the rest of its line is replaced by the cue's text and the token.
  The \<^verbatim>\<open>.*\<close> matches after any end of the cue, so the group ends at the cue's first end.
  No cue matches the empty string, so no match starts at the end of \<open>value\<close>.
\<close>

definition not_newline :: regex where
  "not_newline = Sym (\<lambda>u. u \<noteq> Lat (CHR 0x0A))"

function sub_cue_from :: "regex \<Rightarrow> ustring \<Rightarrow> cursor \<Rightarrow> ustring" where
  "sub_cue_from cue token c =
     (case snd c of
        [] \<Rightarrow> []
      | u # us \<Rightarrow>
          (case ends (Seq cue (star not_newline)) c of
             [] \<Rightarrow> u # sub_cue_from cue token (Some u, us)
           | c' # _ \<Rightarrow>
               (case ends cue c of
                  [] \<Rightarrow> u # sub_cue_from cue token (Some u, us)
                | g # _ \<Rightarrow>
                    take (length (snd c) - length (snd g)) (snd c) @ token @
                    (if length (snd c') < length (snd c) then sub_cue_from cue token c'
                     else u # sub_cue_from cue token (Some u, us)))))"
  by pat_completeness auto
termination
  by (relation "measure (\<lambda>(cue, token, c). length (snd c))") auto

declare sub_cue_from.simps [simp del]

definition dob_token :: ustring where
  "dob_token = lit ''[DOB REDACTED]''"

definition name_token :: ustring where
  "name_token = lit ''[NAME REDACTED]''"

text \<open>
  The prefixes \<open>_redact_dob\<close> keeps: \<^verbatim>\<open>(date\s+of\s+birth\s*(?:is\s*)?)\<close>,
  \<^verbatim>\<open>(DOB\s*:?\s*)\<close> and \<^verbatim>\<open>(born\s+on\s*)\<close>, each used with \<open>re.IGNORECASE\<close>.
\<close>

definition dob_prefixes :: "regex list" where
  "dob_prefixes =
     [seqs [istr ''date'', plus space, istr ''of'', plus space, istr ''birth'', star space,
            opt (Seq (istr ''is'') (star space))],
      seqs [istr ''DOB'', star space, opt (ichr CHR '':''), star space],
      seqs [istr ''born'', plus space, istr ''on'', star space]]"

fun redact_dob_with :: "regex list \<Rightarrow> ustring \<Rightarrow> ustring" where
  "redact_dob_with [] v = dob_token"
| "redact_dob_with (pattern # patterns) v =
     (case re_match pattern v of
        Some _ \<Rightarrow> sub_cue_from pattern dob_token (None, v)
      | None \<Rightarrow> redact_dob_with patterns v)"

definition redact_dob :: "ustring \<Rightarrow> ustring" where
  "redact_dob v = redact_dob_with dob_prefixes v"

text \<open>
  The prefixes \<open>_redact_name\<close> keeps. \<open>re.match('(prefix)(.*)', value)\<close> succeeds as soon
  as the prefix does, and group 1 ends at the prefix's first end.
\<close>

definition name_prefixes :: "regex list" where
  "name_prefixes =
     [seqs [istr ''my'', plus space, istr ''name'', plus space, istr ''is'', plus space],
      seqs [istr ''this'', plus space, istr ''is'', plus space],
      seqs [ichr CHR ''I'', opt (ichr apostrophe), ichr CHR ''m'', plus space],
      seqs [ichr CHR ''I'', plus space, istr ''am'', plus space],
      seqs [istr ''name'', opt (ichr apostrophe), ichr CHR ''s'', plus space],
      seqs [alts [seqs [istr ''Mr'', opt (ichr CHR ''s''), opt (ichr CHR ''.'')],
                  seqs [istr ''Ms'', opt (ichr CHR ''.'')],
                  seqs [istr ''Dr'', opt (ichr CHR ''.'')],
                  istr ''Miss''],
            plus space]]"

fun redact_name_with :: "regex list \<Rightarrow> ustring \<Rightarrow> ustring" where
  "redact_name_with [] v = name_token"
| "redact_name_with (prefix_pattern # prefixes) v =
     (case re_match prefix_pattern v of
        Some g \<Rightarrow> take g v @ name_token
      | None \<Rightarrow> redact_name_with prefixes v)"

definition redact_name :: "ustring \<Rightarrow> ustring" where
  "redact_name v = redact_name_with name_prefixes v"

subsection \<open>\<open>detect_pii\<close>, \<open>_deduplicate_matches\<close> and \<open>redact\<close>\<close>

definition mk_match :: "PIIType \<Rightarrow> (ustring \<Rightarrow> ustring) \<Rightarrow> ustring \<Rightarrow> nat \<times> nat \<Rightarrow> PIIMatch" where
  "mk_match kind policy t sp =
     \<lparr>pii_type = kind, original_value = slice t (fst sp) (snd sp),
      start_pos = int (fst sp), end_pos = int (snd sp),
      redacted_value = policy (slice t (fst sp) (snd sp))\<rparr>"

text \<open>The email loop: it stops at the first match whose redaction raises.\<close>

fun email_matches :: "ustring \<Rightarrow> ustring \<Rightarrow> (nat \<times> nat) list \<Rightarrow> error + PIIMatch list" where
  "email_matches rc t [] = Inr []"
| "email_matches rc t (sp # sps) =
     (case redact_email rc (slice t (fst sp) (snd sp)) of
        Inl e \<Rightarrow> Inl e
      | Inr red \<Rightarrow>
          (case email_matches rc t sps of
             Inl e \<Rightarrow> Inl e
           | Inr ms \<Rightarrow> Inr (mk_match EMAIL (\<lambda>_. red) t sp # ms)))"

text \<open>The credit-card loop keeps a match only if it has 13 to 19 digits.\<close>

definition card_spans :: "ustring \<Rightarrow> (nat \<times> nat) list" where
  "card_spans t =
     filter (\<lambda>sp. let n = length (digits_of (slice t (fst sp) (snd sp)))
                    in 13 \<le> n \<and> n \<le> 19)
            (finditer credit_card_pattern t)"

text \<open>
  \<open>sorted(matches, key=lambda m: (m.start_pos, -(m.end_pos - m.start_pos)))\<close> is a stable
  sort, as \<open>sort_key\<close> is; the sweep starts with \<open>last_end = -1\<close>.
\<close>

fun sweep :: "int \<Rightarrow> PIIMatch list \<Rightarrow> PIIMatch list" where
  "sweep last_end [] = []"
| "sweep last_end (m # ms) =
     (if last_end \<le> start_pos m then m # sweep (end_pos m) ms else sweep last_end ms)"

definition dedup_key :: "PIIMatch \<Rightarrow> int \<times> int" where
  "dedup_key m = (start_pos m, - (end_pos m - start_pos m))"

definition deduplicate_matches :: "PIIMatch list \<Rightarrow> PIIMatch list" where
  "deduplicate_matches matches =
     (if matches = [] then [] else sweep (- 1) (sort_key dedup_key matches))"

text \<open>The candidates in the order \<open>detect_pii\<close> appends them. No loop uses \<open>tfn_pattern\<close>.\<close>

definition candidates :: "ustring \<Rightarrow> ustring \<Rightarrow> PIIMatch list \<Rightarrow> PIIMatch list" where
  "candidates rc t emails =
     map (mk_match MEDICARE (redact_medicare rc) t) (finditer medicare_pattern t)
     @ map (mk_match PHONE (redact_phone rc) t) (finditer phone_pattern t)
     @ emails
     @ concat (map (\<lambda>pattern. map (mk_match DOB redact_dob t) (finditer pattern t)) dob_patterns)
     @ map (mk_match CREDIT_CARD (redact_credit_card rc) t) (card_spans t)
     @ map (mk_match ADDRESS (\<lambda>v. redact_generic rc v 0) t) (finditer address_pattern t)
     @ concat (map (\<lambda>pattern. map (mk_match NAME redact_name t) (finditer pattern t))
                   name_patterns)"

definition detect_pii :: "ustring \<Rightarrow> ustring \<Rightarrow> error + PIIMatch list" where
  "detect_pii rc t =
     (case email_matches rc t (finditer email_pattern t) of
        Inl e \<Rightarrow> Inl e
      | Inr emails \<Rightarrow> Inr (deduplicate_matches (candidates rc t emails)))"

text \<open>
  \<open>redact\<close> rewrites from the highest start offset to the lowest;
  \<open>sorted(..., reverse=True)\<close> is the stable sort on the negated key.
\<close>

definition apply_redaction :: "ustring \<Rightarrow> PIIMatch \<Rightarrow> ustring" where
  "apply_redaction txt m =
     take (nat (start_pos m)) txt @ redacted_value m @ drop (nat (end_pos m)) txt"

definition redact :: "ustring \<Rightarrow> ustring \<Rightarrow> error + ustring \<times> PIIMatch list \<times> bool" where
  "redact rc t =
     (case detect_pii rc t of
        Inl e \<Rightarrow> Inl e
      | Inr matches \<Rightarrow>
          if matches = [] then Inr (t, [], True)
          else Inr (foldl apply_redaction t (sort_key (\<lambda>m. - start_pos m) matches),
                    matches, True))"

text \<open>The module's singleton \<open>pii_filter = PIIRedactionFilter()\<close>.\<close>

definition pii_filter_redact :: "ustring \<Rightarrow> error + ustring \<times> PIIMatch list \<times> bool" where
  "pii_filter_redact t = redact default_redaction_char t"

section \<open>Smart routing (\<open>app/services/smart_routing.py\<close>)\<close>

record location =
  loc_id :: ustring
  loc_name :: ustring
  loc_keywords :: "ustring list"

record doctor =
  doc_name :: ustring
  doc_location :: ustring
  doc_aliases :: "ustring list"

definition CLINIC_LOCATIONS :: "location list" where
  "CLINIC_LOCATIONS =
     [\<lparr>loc_id = lit ''harbour'', loc_name = lit ''Harbour Medical Centre'',
       loc_keywords = map lit [''harbour'', ''harbor'', ''waterfront'', ''bay'']\<rparr>,
      \<lparr>loc_id = lit ''sunset'', loc_name = lit ''Sunset Family Practice'',
       loc_keywords = map lit [''sunset'', ''west'', ''evening'']\<rparr>,
      \<lparr>loc_id = lit ''central'', loc_name = lit ''Central City Clinic'',
       loc_keywords = map lit [''central'', ''city'', ''downtown'', ''cbd'']\<rparr>,
      \<lparr>loc_id = lit ''northside'', loc_name = lit ''Northside Health Hub'',
       loc_keywords = map lit [''north'', ''northside'', ''upper'']\<rparr>]"

definition KNOWN_DOCTORS :: "doctor list" where
  "KNOWN_DOCTORS =
     [\<lparr>doc_name = lit ''Dr. Sarah Chen'', doc_location = lit ''harbour'',
       doc_aliases = map lit [''dr chen'', ''sarah chen'', ''chen'']\<rparr>,
      \<lparr>doc_name = lit ''Dr. Michael Wong'', doc_location = lit ''sunset'',
       doc_aliases = map lit [''dr wong'', ''michael wong'', ''wong'']\<rparr>,
      \<lparr>doc_name = lit ''Dr. Emma Thompson'', doc_location = lit ''central'',
       doc_aliases = map lit [''dr thompson'', ''emma thompson'', ''thompson'']\<rparr>,
      \<lparr>doc_name = lit ''Dr. James Nguyen'', doc_location = lit ''northside'',
       doc_aliases = map lit [''dr nguyen'', ''james nguyen'', ''nguyen'']\<rparr>,
      \<lparr>doc_name = lit ''Dr. Lisa Patel'', doc_location = lit ''harbour'',
       doc_aliases = map lit [''dr patel'', ''lisa patel'', ''patel'']\<rparr>]"

definition PATIENT_LOCATION_HISTORY :: "(ustring \<times> ustring) list" where
  "PATIENT_LOCATION_HISTORY =
     [(lit ''2345678901'', lit ''harbour''),
      (lit ''3456789012'', lit ''sunset''),
      (lit ''4567890123'', lit ''central''),
      (lit ''5678901234'', lit ''northside''),
      (lit ''6789012345'', lit ''harbour'')]"

record RoutingResult =
  assigned_location :: "ustring option"
  location_name :: "ustring option"
  confidence :: real
  routing_reason :: ustring
  mentioned_doctor :: "ustring option"
  mentioned_location :: "ustring option"

record MedicareResult =
  medicare_number :: "ustring option"
  medicare_masked :: "ustring option"
  is_valid :: bool

record SmartRoutingService =
  locations :: "location list"
  doctors :: "doctor list"
  patient_history :: "(ustring \<times> ustring) list"

text \<open>The module's singleton \<open>smart_routing = SmartRoutingService()\<close>.\<close>

definition smart_routing :: SmartRoutingService where
  "smart_routing =
     \<lparr>locations = CLINIC_LOCATIONS, doctors = KNOWN_DOCTORS,
      patient_history = PATIENT_LOCATION_HISTORY\<rparr>"

definition mask_medicare :: "ustring \<Rightarrow> ustring" where
  "mask_medicare medicare =
     (if 10 \<le> length medicare then lit ''XXXX XXXX X'' @ last_n 2 medicare
      else lit ''XXXX XXXX XXX'')"

text \<open>
  The two patterns of \<open>extract_medicare\<close>: \<^verbatim>\<open>\b(\d{4})\s*(\d{5})\s*(\d{1,2})\b\<close> and
  \<^verbatim>\<open>\b(\d{10,11})\b\<close>. \<open>re.findall\<close> returns the groups of every match; joined, the
  three groups of the first pattern are the match without its \<^verbatim>\<open>\s*\<close> separators.
\<close>

definition medicare_extract_patterns :: "regex list" where
  "medicare_extract_patterns =
     [seqs [WordB, times 4 digit, star space, times 5 digit, star space, Rep 1 (Some 2) digit,
            WordB],
      seqs [WordB, Rep 10 (Some 11) digit, WordB]]"

definition medicare_findall :: "ustring \<Rightarrow> ustring list" where
  "medicare_findall t =
     concat (map (\<lambda>pattern. map (\<lambda>sp. filter (\<lambda>u. \<not> is_space u) (slice t (fst sp) (snd sp)))
                                (finditer pattern t))
                 medicare_extract_patterns)"

text \<open>The first candidate of 10 or 11 digits whose first digit is one of \<open>23456\<close>.\<close>

fun first_valid_medicare :: "ustring list \<Rightarrow> MedicareResult" where
  "first_valid_medicare [] =
     \<lparr>medicare_number = None, medicare_masked = None, is_valid = False\<rparr>"
| "first_valid_medicare (digits # rest) =
     (if 10 \<le> length digits \<and> length digits \<le> 11 \<and> hd digits \<in> set (lit ''23456'')
      then \<lparr>medicare_number = Some digits, medicare_masked = Some (mask_medicare digits),
            is_valid = True\<rparr>
      else first_valid_medicare rest)"

definition extract_medicare :: "ustring \<Rightarrow> MedicareResult" where
  "extract_medicare t = first_valid_medicare (medicare_findall t)"

text \<open>First keyword hit in directory order.\<close>

fun extract_location_in :: "location list \<Rightarrow> ustring \<Rightarrow> ustring option" where
  "extract_location_in [] text_lower = None"
| "extract_location_in (l # ls) text_lower =
     (if list_ex (\<lambda>keyword. contains keyword text_lower) (loc_keywords l) then Some (loc_id l)
      else extract_location_in ls text_lower)"

definition extract_location :: "SmartRoutingService \<Rightarrow> ustring \<Rightarrow> ustring option" where
  "extract_location svc t = extract_location_in (locations svc) (py_lower t)"

fun get_location_name_in :: "location list \<Rightarrow> ustring \<Rightarrow> ustring option" where
  "get_location_name_in [] location_id = None"
| "get_location_name_in (l # ls) location_id =
     (if loc_id l = location_id then Some (loc_name l) else get_location_name_in ls location_id)"

definition get_location_name :: "SmartRoutingService \<Rightarrow> ustring \<Rightarrow> ustring option" where
  "get_location_name svc location_id = get_location_name_in (locations svc) location_id"

fun extract_doctor_in :: "doctor list \<Rightarrow> ustring \<Rightarrow> ustring option \<times> ustring option" where
  "extract_doctor_in [] text_lower = (None, None)"
| "extract_doctor_in (d # ds) text_lower =
     (if list_ex (\<lambda>alias. contains alias text_lower) (doc_aliases d)
      then (Some (doc_name d), Some (doc_location d))
      else extract_doctor_in ds text_lower)"

definition extract_doctor :: "SmartRoutingService \<Rightarrow> ustring \<Rightarrow> ustring option \<times> ustring option" where
  "extract_doctor svc t = extract_doctor_in (doctors svc) (py_lower t)"

text \<open>Python's truth value of an optional string: \<open>None\<close> and \<open>''\<close> are false.\<close>

fun truthy :: "ustring option \<Rightarrow> bool" where
  "truthy None = False"
| "truthy (Some s) = (s \<noteq> [])"

definition route_voicemail ::
    "SmartRoutingService \<Rightarrow> ustring \<Rightarrow> ustring option \<Rightarrow> RoutingResult" where
  "route_voicemail svc transcript medicare_no =
     (let mentioned = extract_location svc transcript in
      if truthy mentioned then
        \<lparr>assigned_location = mentioned,
         location_name = get_location_name svc (the mentioned),
         confidence = 0.95, routing_reason = lit ''location_mentioned'',
         mentioned_doctor = None,
         mentioned_location = get_location_name svc (the mentioned)\<rparr>
      else
        let (doctor_name, doctor_location) = extract_doctor svc transcript in
        if truthy doctor_location then
          \<lparr>assigned_location = doctor_location,
           location_name = get_location_name svc (the doctor_location),
           confidence = 0.85, routing_reason = lit ''doctor_association'',
           mentioned_doctor = doctor_name, mentioned_location = None\<rparr>
        else if truthy medicare_no \<and> the medicare_no \<in> fst ` set (patient_history svc) then
          \<lparr>assigned_location = map_of (patient_history svc) (the medicare_no),
           location_name =
             get_location_name svc (the (map_of (patient_history svc) (the medicare_no))),
           confidence = 0.75, routing_reason = lit ''patient_history'',
           mentioned_doctor = None, mentioned_location = None\<rparr>
        else
          \<lparr>assigned_location = None, location_name = None,
           confidence = 0.0, routing_reason = lit ''unassigned'',
           mentioned_doctor = doctor_name, mentioned_location = None\<rparr>)"

section \<open>Emergency escalation (\<open>app/services/emergency_escalation.py\<close>)\<close>

datatype intervention = Status_None | Voice_Alert_Sent | SMS_Alert_Only | Escalation_Failed

datatype action = SMS_Alert_Sent_To_Manager | Voice_Alert_Sent_To_Patient

record EscalationResult =
  escalation_triggered :: bool
  intervention_status :: intervention
  timestamp_escalated :: "ustring option"
  result_script :: "ustring option"
  sms_sent_to :: "ustring option"
  actions_taken :: "action list"

record log_entry =
  entry_type :: ustring
  recipient :: ustring
  entry_voicemail_id :: ustring
  entry_timestamp :: ustring
  entry_status :: ustring

text \<open>
  The state of an \<open>EmergencyEscalation\<close> object. The bilingual script is a constant with
  text outside the modelled repertoire that no operation inspects; the constructor takes
  it as an argument.
\<close>

record EmergencyEscalation =
  manager_phone :: ustring
  emergency_script :: ustring
  escalation_log :: "log_entry list"

definition EmergencyEscalation_init :: "ustring \<Rightarrow> EmergencyEscalation" where
  "EmergencyEscalation_init script =
     \<lparr>manager_phone = lit ''+61400000001'', emergency_script = script, escalation_log = []\<rparr>"

definition should_escalate :: "int \<Rightarrow> ustring option \<Rightarrow> bool" where
  "should_escalate urgency_level intent =
     (if 5 \<le> urgency_level then True
      else if 4 \<le> urgency_level \<and> intent = Some (lit ''Emergency'') then True
      else False)"

text \<open>
  The two transports are simulated: each reads the clock, prints, appends one entry to
  \<open>escalation_log\<close> and returns \<open>True\<close>. The clock reading is an argument; the printing
  is left out.
\<close>

definition send_sms_to_manager ::
    "EmergencyEscalation \<Rightarrow> ustring \<Rightarrow> ustring \<Rightarrow> ustring \<Rightarrow> int \<Rightarrow> ustring
       \<Rightarrow> bool \<times> EmergencyEscalation" where
  "send_sms_to_manager self voicemail_id patient_phone summary urgency_level now =
     (True, self\<lparr>escalation_log := escalation_log self @
        [\<lparr>entry_type = lit ''sms'', recipient = manager_phone self,
          entry_voicemail_id = voicemail_id, entry_timestamp = now,
          entry_status = lit ''sent_simulated''\<rparr>]\<rparr>)"

definition trigger_voice_alert ::
    "EmergencyEscalation \<Rightarrow> ustring \<Rightarrow> ustring \<Rightarrow> ustring \<Rightarrow> bool \<times> EmergencyEscalation" where
  "trigger_voice_alert self voicemail_id patient_phone now =
     (True, self\<lparr>escalation_log := escalation_log self @
        [\<lparr>entry_type = lit ''voice_alert'', recipient = patient_phone,
          entry_voicemail_id = voicemail_id, entry_timestamp = now,
          entry_status = lit ''sent_simulated''\<rparr>]\<rparr>)"

text \<open>
  \<open>process_escalation\<close>. The three clock readings (its own, the SMS transport's and the
  voice transport's) are the argument \<open>clock\<close>.
\<close>

definition process_escalation ::
    "EmergencyEscalation \<Rightarrow> ustring \<Rightarrow> int \<Rightarrow> ustring option \<Rightarrow> ustring \<Rightarrow> ustring option
       \<Rightarrow> ustring \<times> ustring \<times> ustring \<Rightarrow> EscalationResult \<times> EmergencyEscalation" where
  "process_escalation self voicemail_id urgency_level intent summary patient_phone clock =
     (if \<not> should_escalate urgency_level intent then
        (\<lparr>escalation_triggered = False, intervention_status = Status_None,
          timestamp_escalated = None, result_script = None, sms_sent_to = None,
          actions_taken = []\<rparr>, self)
      else
        let timestamp = fst clock;
            (sms_sent, self1) =
              send_sms_to_manager self voicemail_id
                (if truthy patient_phone then the patient_phone else lit ''Unknown'')
                summary urgency_level (fst (snd clock));
            actions1 = (if sms_sent then [SMS_Alert_Sent_To_Manager] else []);
            (voice_sent, self2) =
              (if truthy patient_phone
               then trigger_voice_alert self1 voicemail_id (the patient_phone) (snd (snd clock))
               else (False, self1));
            actions2 = actions1 @ (if voice_sent then [Voice_Alert_Sent_To_Patient] else []);
            status = (if voice_sent \<and> sms_sent then Voice_Alert_Sent
                      else if sms_sent then SMS_Alert_Only
                      else Escalation_Failed)
        in (\<lparr>escalation_triggered = True, intervention_status = status,
             timestamp_escalated = Some timestamp,
             result_script = Some (emergency_script self2),
             sms_sent_to = Some (manager_phone self2),
             actions_taken = actions2\<rparr>, self2))"

section \<open>The triage pipeline (\<open>app/services/triage_service.py\<close>)\<close>

subsection \<open>The classifier's response\<close>

text \<open>
  What \<open>json.loads\<close> returns: a dict is an association list with one pair per key.
  Floats are left out of the model.
\<close>

datatype json = JNull | JBool bool | JInt int | JStr ustring | JArr "json list"
  | JObj "(ustring \<times> json) list"

fun dict_set :: "(ustring \<times> json) list \<Rightarrow> ustring \<Rightarrow> json \<Rightarrow> (ustring \<times> json) list" where
  "dict_set [] k v = [(k, v)]"
| "dict_set ((k', v') # kvs) k v =
     (if k' = k then (k, v) # kvs else (k', v') # dict_set kvs k v)"

text \<open>\<open>s.split(sep)[0]\<close>, and the rest of \<open>s\<close> after the first \<open>sep\<close>.\<close>

fun before_first :: "ustring \<Rightarrow> ustring \<Rightarrow> ustring" where
  "before_first sep [] = []"
| "before_first sep (y # ys) =
     (if starts_with sep (y # ys) then [] else y # before_first sep ys)"

fun after_first :: "ustring \<Rightarrow> ustring \<Rightarrow> ustring" where
  "after_first sep [] = []"
| "after_first sep (y # ys) =
     (if starts_with sep (y # ys) then drop (length sep) (y # ys) else after_first sep ys)"

definition py_strip :: "ustring \<Rightarrow> ustring" where
  "py_strip s = rev (dropWhile is_space (rev (dropWhile is_space s)))"

definition fence_json :: ustring where
  "fence_json = lit ''```json''"

definition fence :: ustring where
  "fence = lit ''```''"

text \<open>\<^verbatim>\<open>\{[\s\S]*\}\<close>\<close>

definition json_object_pattern :: regex where
  "json_object_pattern = seqs [chr CHR ''{'', star (Sym (\<lambda>_. True)), chr CHR ''}'']"

definition default_triage :: json where
  "default_triage =
     JObj [(lit ''language'', JStr (lit ''Unknown'')),
           (lit ''urgency'', JObj [(lit ''level'', JInt 3),
                                   (lit ''reasoning'', JStr (lit ''Unable to parse AI response''))]),
           (lit ''intent'', JStr (lit ''Other'')),
           (lit ''summary'', JStr (lit ''Message requires manual review'')),
           (lit ''action_item'', JStr (lit ''Manual review required - AI processing error''))]"

text \<open>
  \<open>_parse_triage_response\<close>. The decoder \<open>json.loads\<close> is a parameter: \<open>None\<close> stands for
  its \<open>JSONDecodeError\<close>. The handler's own call of the decoder is outside the \<open>try\<close>.
\<close>

definition parse_triage_response :: "(ustring \<Rightarrow> json option) \<Rightarrow> ustring \<Rightarrow> error + json" where
  "parse_triage_response loads response =
     (let response1 =
            (if contains fence_json response
             then before_first fence (before_first fence_json (after_first fence_json response))
             else if contains fence response
             then before_first fence (before_first fence (after_first fence response))
             else response)
      in case loads (py_strip response1) of
           Some data \<Rightarrow> Inr data
         | None \<Rightarrow>
             (case re_search json_object_pattern response1 of
                Some (s, e) \<Rightarrow>
                  (case loads (slice response1 s e) of
                     Some data \<Rightarrow> Inr data
                   | None \<Rightarrow> Inl JSONDecodeError)
              | None \<Rightarrow> Inr default_triage))"

definition valid_intents :: "ustring list" where
  "valid_intents = map lit [''Booking'', ''Prescription'', ''Results'', ''Emergency'', ''Billing'',
     ''Referral'', ''Other'']"

text \<open>\<open>max(1, min(5, level))\<close> on what the decoder can return for \<open>level\<close>.\<close>

fun clamp_level :: "json \<Rightarrow> error + json" where
  "clamp_level (JInt n) = Inr (JInt (max 1 (min 5 n)))"
| "clamp_level (JBool b) = Inr (JInt 1)"
| "clamp_level _ = Inl TypeError"

text \<open>
  \<open>_validate_triage_output\<close>: the urgency is clamped only \<open>if "urgency" in data\<close>; the
  intent is replaced by \<open>Other\<close> unless it is one of \<open>valid_intents\<close>.
\<close>

definition clamp_urgency :: "(ustring \<times> json) list \<Rightarrow> error + (ustring \<times> json) list" where
  "clamp_urgency kvs =
     (case map_of kvs (lit ''urgency'') of
        None \<Rightarrow> Inr kvs
      | Some (JObj u) \<Rightarrow>
          (case clamp_level (case map_of u (lit ''level'') of None \<Rightarrow> JInt 3 | Some l \<Rightarrow> l) of
             Inl e \<Rightarrow> Inl e
           | Inr l \<Rightarrow> Inr (dict_set kvs (lit ''urgency'') (JObj (dict_set u (lit ''level'') l))))
      | Some _ \<Rightarrow> Inl AttributeError)"

definition normalize_intent :: "(ustring \<times> json) list \<Rightarrow> (ustring \<times> json) list" where
  "normalize_intent kvs =
     (case map_of kvs (lit ''intent'') of
        Some (JStr s) \<Rightarrow>
          (if s \<in> set valid_intents then kvs else dict_set kvs (lit ''intent'') (JStr (lit ''Other'')))
      | _ \<Rightarrow> dict_set kvs (lit ''intent'') (JStr (lit ''Other'')))"

fun validate_triage_output :: "json \<Rightarrow> error + json" where
  "validate_triage_output (JObj kvs) =
     (case clamp_urgency kvs of Inl e \<Rightarrow> Inl e | Inr kvs' \<Rightarrow> Inr (JObj (normalize_intent kvs')))"
| "validate_triage_output (JArr xs) =
     (if JStr (lit ''urgency'') \<in> set xs then Inl TypeError else Inl AttributeError)"
| "validate_triage_output (JStr s) =
     (if contains (lit ''urgency'') s then Inl TypeError else Inl AttributeError)"
| "validate_triage_output _ = Inl TypeError"

text \<open>
  Step 4 of \<open>triage\<close> after validation: \<open>triage_data["urgency"]["level"]\<close> and
  \<open>triage_data.get("intent", "Other")\<close>.
\<close>

fun triage_verdict :: "json \<Rightarrow> error + int \<times> ustring" where
  "triage_verdict (JObj kvs) =
     (case map_of kvs (lit ''urgency'') of
        None \<Rightarrow> Inl KeyError
      | Some (JObj u) \<Rightarrow>
          (case map_of u (lit ''level'') of
             None \<Rightarrow> Inl KeyError
           | Some (JInt n) \<Rightarrow>
               (case map_of kvs (lit ''intent'') of
                  None \<Rightarrow> Inr (n, lit ''Other'')
                | Some (JStr s) \<Rightarrow> Inr (n, s)
                | Some _ \<Rightarrow> Inl TypeError)
           | Some _ \<Rightarrow> Inl TypeError)
      | Some _ \<Rightarrow> Inl TypeError)"
| "triage_verdict _ = Inl TypeError"

definition triage_step4 :: "(ustring \<Rightarrow> json option) \<Rightarrow> ustring \<Rightarrow> error + int \<times> ustring" where
  "triage_step4 loads ai_response =
     (case parse_triage_response loads ai_response of
        Inl e \<Rightarrow> Inl e
      | Inr data \<Rightarrow>
          (case validate_triage_output data of
             Inl e \<Rightarrow> Inl e
           | Inr data' \<Rightarrow> triage_verdict data'))"

subsection \<open>Entity extraction\<close>

definition bullet :: ustring where
  "bullet = [BlackCircle]"

definition redact_phone_display :: "ustring option \<Rightarrow> ustring option" where
  "redact_phone_display phone =
     (if \<not> truthy phone then None
      else let digits = digits_of (the phone)
           in if 4 \<le> length digits
              then Some (py_repeat bullet (int (length digits) - 4) @ last_n 4 digits)
              else Some (py_repeat bullet (int (length digits))))"

text \<open>
  The patterns of \<open>_extract_phone_from_text\<close>: \<^verbatim>\<open>0\d{3}\s?\d{3}\s?\d{3}\<close>,
  \<^verbatim>\<open>\+61\d{9}\<close> and \<^verbatim>\<open>04\d{8}\<close>.
\<close>

definition phone_extract_patterns :: "regex list" where
  "phone_extract_patterns =
     [seqs [chr CHR ''0'', times 3 digit, opt space, times 3 digit, opt space, times 3 digit],
      seqs [chr CHR ''+'', str ''61'', times 9 digit],
      seqs [str ''04'', times 8 digit]]"

fun extract_phone_with :: "regex list \<Rightarrow> ustring \<Rightarrow> ustring option \<times> ustring option" where
  "extract_phone_with [] t = (None, None)"
| "extract_phone_with (pattern # patterns) t =
     (case re_search pattern t of
        Some (s, e) \<Rightarrow>
          (let normalized = filter (\<lambda>u. \<not> is_space u) (slice t s e)
           in (Some normalized, redact_phone_display (Some normalized)))
      | None \<Rightarrow> extract_phone_with patterns t)"

definition extract_phone_from_text :: "ustring \<Rightarrow> ustring option \<times> ustring option" where
  "extract_phone_from_text t = extract_phone_with phone_extract_patterns t"

text \<open>Step 5 of \<open>triage\<close>: the caller's number is the fallback.\<close>

definition triage_callback :: "ustring \<Rightarrow> ustring option \<Rightarrow> ustring option \<times> ustring option" where
  "triage_callback transcript caller_phone =
     (let (callback_number, callback_masked) = extract_phone_from_text transcript
      in if \<not> truthy callback_number \<and> truthy caller_phone
         then (caller_phone, redact_phone_display caller_phone)
         else (callback_number, callback_masked))"

subsection \<open>Step 7 of \<open>triage\<close>: emergency escalation\<close>

record EscalationInfo =
  info_triggered :: bool
  emergency_alert_sent :: bool
  info_status :: intervention
  info_timestamp :: "ustring option"
  info_script :: "ustring option"
  info_sms_sent_to :: "ustring option"
  info_actions :: "action list"

text \<open>
  \<open>escalation_info\<close> stays \<open>None\<close> unless \<open>urgency_level >= 5\<close>; only then is
  \<open>process_escalation\<close> called on the shared \<open>emergency_escalation\<close> object.
\<close>

definition triage_escalation ::
    "EmergencyEscalation \<Rightarrow> ustring \<Rightarrow> int \<Rightarrow> ustring \<Rightarrow> ustring \<Rightarrow> ustring option
       \<Rightarrow> ustring \<times> ustring \<times> ustring \<Rightarrow> EscalationInfo option \<times> EmergencyEscalation" where
  "triage_escalation esc voicemail_id urgency_level intent summary callback_number clock =
     (if 5 \<le> urgency_level then
        (let (res, esc') = process_escalation esc voicemail_id urgency_level (Some intent)
                             summary callback_number clock
         in if escalation_triggered res then
              (Some \<lparr>info_triggered = True, emergency_alert_sent = True,
                      info_status = intervention_status res,
                      info_timestamp = timestamp_escalated res,
                      info_script = result_script res,
                      info_sms_sent_to = sms_sent_to res,
                      info_actions = actions_taken res\<rparr>, esc')
            else (None, esc'))
      else (None, esc))"

section \<open>Notions the statements use\<close>

text \<open>The tier value that goes with each routing reason.\<close>

definition tier_confidence :: "ustring \<Rightarrow> real" where
  "tier_confidence reason =
     (if reason = lit ''location_mentioned'' then 0.95
      else if reason = lit ''doctor_association'' then 0.85
      else if reason = lit ''patient_history'' then 0.75
      else 0.0)"

text \<open>
  The first entry of the site directory one of whose keywords occurs in the lower-cased
  transcript, and the first clinician one of whose aliases does.
\<close>

definition site_hit :: "SmartRoutingService \<Rightarrow> ustring \<Rightarrow> location option" where
  "site_hit svc t =
     find (\<lambda>l. list_ex (\<lambda>keyword. contains keyword (py_lower t)) (loc_keywords l)) (locations svc)"

definition clinician_hit :: "SmartRoutingService \<Rightarrow> ustring \<Rightarrow> doctor option" where
  "clinician_hit svc t =
     find (\<lambda>d. list_ex (\<lambda>alias. contains alias (py_lower t)) (doc_aliases d)) (doctors svc)"

text \<open>
  The words a pattern can consume, without its \<open>\b\<close> conditions and the upper bounds
  of its quantifiers: every match of \<open>r\<close> consumes a word of \<open>lang r\<close>.
\<close>

primrec lang :: "regex \<Rightarrow> ustring \<Rightarrow> bool" where
  "lang (Sym P) = (\<lambda>w. \<exists>u. w = [u] \<and> P u)"
| "lang Eps = (\<lambda>w. w = [])"
| "lang WordB = (\<lambda>w. w = [])"
| "lang (Seq a b) = (\<lambda>w. \<exists>u v. w = u @ v \<and> lang a u \<and> lang b v)"
| "lang (Alt a b) = (\<lambda>w. lang a w \<or> lang b w)"
| "lang (Rep m n a) = (\<lambda>w. \<exists>ws. w = concat ws \<and> m \<le> length ws \<and> list_all (lang a) ws)"

text \<open>
  \<open>min_count Q r\<close>: a number of characters with property \<open>Q\<close> that every match of \<open>r\<close>
  contains. \<open>avoids bad r\<close>: no character class of \<open>r\<close> accepts a character of \<open>bad\<close>.
\<close>

primrec min_count :: "(uchar \<Rightarrow> bool) \<Rightarrow> regex \<Rightarrow> nat" where
  "min_count Q (Sym P) = (if \<forall>u. P u \<longrightarrow> Q u then 1 else 0)"
| "min_count Q Eps = 0"
| "min_count Q WordB = 0"
| "min_count Q (Seq a b) = min_count Q a + min_count Q b"
| "min_count Q (Alt a b) = min (min_count Q a) (min_count Q b)"
| "min_count Q (Rep m n a) = m * min_count Q a"

primrec avoids :: "uchar list \<Rightarrow> regex \<Rightarrow> bool" where
  "avoids bad (Sym P) = list_all (\<lambda>g. \<not> P g) bad"
| "avoids bad Eps = True"
| "avoids bad WordB = True"
| "avoids bad (Seq a b) = (avoids bad a \<and> avoids bad b)"
| "avoids bad (Alt a b) = (avoids bad a \<and> avoids bad b)"
| "avoids bad (Rep m n a) = avoids bad a"

text \<open>The patterns \<open>detect_pii\<close> scans with, in its order.\<close>

definition detect_patterns :: "regex list" where
  "detect_patterns =
     [medicare_pattern, phone_pattern, email_pattern] @ dob_patterns
     @ [credit_card_pattern, address_pattern] @ name_patterns"

text \<open>The code points of the default filler and the brackets of the two tokens.\<close>

definition filler_and_brackets :: "uchar list" where
  "filler_and_brackets = default_redaction_char @ lit ''[]''"

text \<open>The text \<open>redact\<close> returns, if it returns.\<close>

definition redacted_text :: "ustring \<Rightarrow> ustring \<Rightarrow> ustring option" where
  "redacted_text rc t =
     (case redact rc t of Inl e \<Rightarrow> None | Inr (txt, ms, safe) \<Rightarrow> Some txt)"

text \<open>A decoder that knows one document, the empty object, as \<open>json.loads\<close> decodes it.\<close>

definition loads_empty_object :: "ustring \<Rightarrow> json option" where
  "loads_empty_object s = (if s = lit ''{}'' then Some (JObj []) else None)"

section \<open>Escalation: the trigger, the outcome and the log\<close>

lemma should_escalate_iff:
  "should_escalate u i = (5 \<le> u \<or> (4 \<le> u \<and> i = Some (lit ''Emergency'')))"
  by (simp add: should_escalate_def)

text \<open>
  What step 7 of \<open>triage\<close> does: it consults \<open>should_escalate\<close> only behind its own test
  \<open>urgency_level >= 5\<close>, so the record carries an escalation exactly when the urgency
  level is at least 5.
\<close>

lemma triage_escalation_gate:
  "((fst (triage_escalation esc vid u intent summary phone clock) = None) = (u < 5))
   \<and> (\<forall>info. fst (triage_escalation esc vid u intent summary phone clock) = Some info
         \<longrightarrow> info_triggered info \<and> 5 \<le> u)"
  by (auto simp: triage_escalation_def process_escalation_def should_escalate_def
        send_sms_to_manager_def trigger_voice_alert_def Let_def split: prod.splits if_splits)

text \<open>
  C1 says that a transcript is escalated if and only if the urgency level is at least 5,
  or at least 4 with intent \<open>Emergency\<close>. That is the criterion \<open>should_escalate\<close>
  documents and implements, and a direct call of \<open>process_escalation\<close> acts on it. The
  pipeline does not: at urgency level 4 with intent \<open>Emergency\<close> the criterion holds, the
  direct call triggers, and step 7 of \<open>triage\<close> leaves the record without an escalation.
\<close>

theorem level4_emergency_not_escalated:
  "should_escalate 4 (Some (lit ''Emergency''))
   \<and> escalation_triggered (fst (process_escalation (EmergencyEscalation_init (lit ''script''))
          (lit ''vm_1'') 4 (Some (lit ''Emergency'')) (lit ''chest pain'')
          (Some (lit ''0412345678'')) (lit ''t0'', lit ''t1'', lit ''t2'')))
   \<and> fst (triage_escalation (EmergencyEscalation_init (lit ''script'')) (lit ''vm_1'') 4
          (lit ''Emergency'') (lit ''chest pain'') (Some (lit ''0412345678''))
          (lit ''t0'', lit ''t1'', lit ''t2'')) = None"
  by (simp add: triage_escalation_def should_escalate_def process_escalation_def
        send_sms_to_manager_def trigger_voice_alert_def lit_def)

text \<open>
  C8: whenever \<open>process_escalation\<close> triggers, the intervention status is not \<open>None\<close>, and
  it reports what the call did. The manager notification is recorded first in
  \<open>actions_taken\<close> and the voice alert after it, exactly when a callback number is
  available. The status is \<open>Voice_Alert_Sent\<close> exactly when both actions were recorded,
  \<open>SMS_Alert_Only\<close> exactly when the manager notification was recorded and the voice
  alert was not, and \<open>Escalation_Failed\<close> exactly when the manager notification was not
  recorded. The log gains the entry of the manager notification, addressed to the
  manager's number, and the entry of the voice alert exactly when that action was
  recorded.
\<close>

theorem process_escalation_outcome:
  assumes "escalation_triggered (fst (process_escalation self vid u i summary phone clock))"
  shows "should_escalate u i
    \<and> intervention_status (fst (process_escalation self vid u i summary phone clock)) \<noteq> Status_None
    \<and> actions_taken (fst (process_escalation self vid u i summary phone clock))
        = SMS_Alert_Sent_To_Manager # (if truthy phone then [Voice_Alert_Sent_To_Patient] else [])
    \<and> (intervention_status (fst (process_escalation self vid u i summary phone clock)) = Voice_Alert_Sent)
        = (SMS_Alert_Sent_To_Manager
             \<in> set (actions_taken (fst (process_escalation self vid u i summary phone clock)))
           \<and> Voice_Alert_Sent_To_Patient
             \<in> set (actions_taken (fst (process_escalation self vid u i summary phone clock))))
    \<and> (intervention_status (fst (process_escalation self vid u i summary phone clock)) = SMS_Alert_Only)
        = (SMS_Alert_Sent_To_Manager
             \<in> set (actions_taken (fst (process_escalation self vid u i summary phone clock)))
           \<and> Voice_Alert_Sent_To_Patient
             \<notin> set (actions_taken (fst (process_escalation self vid u i summary phone clock))))
    \<and> (intervention_status (fst (process_escalation self vid u i summary phone clock)) = Escalation_Failed)
        = (SMS_Alert_Sent_To_Manager
             \<notin> set (actions_taken (fst (process_escalation self vid u i summary phone clock))))
    \<and> (Voice_Alert_Sent_To_Patient
          \<in> set (actions_taken (fst (process_escalation self vid u i summary phone clock))))
        = truthy phone
    \<and> escalation_log (snd (process_escalation self vid u i summary phone clock))
        = escalation_log self
          @ [\<lparr>entry_type = lit ''sms'', recipient = manager_phone self,
               entry_voicemail_id = vid, entry_timestamp = fst (snd clock),
               entry_status = lit ''sent_simulated''\<rparr>]
          @ (if Voice_Alert_Sent_To_Patient
                  \<in> set (actions_taken (fst (process_escalation self vid u i summary phone clock)))
             then [\<lparr>entry_type = lit ''voice_alert'', recipient = the phone,
                     entry_voicemail_id = vid, entry_timestamp = snd (snd clock),
                     entry_status = lit ''sent_simulated''\<rparr>]
             else [])
    \<and> sms_sent_to (fst (process_escalation self vid u i summary phone clock))
        = Some (manager_phone self)"
  using assms
  by (auto simp: process_escalation_def send_sms_to_manager_def trigger_voice_alert_def Let_def
        split: prod.splits if_splits)

theorem process_escalation_outcome_witness:
  "escalation_triggered (fst (process_escalation (EmergencyEscalation_init (lit ''script''))
       (lit ''vm_1'') 5 (Some (lit ''Emergency'')) (lit ''chest pain'') (Some (lit ''0412345678''))
       (lit ''t0'', lit ''t1'', lit ''t2'')))
   \<and> intervention_status (fst (process_escalation (EmergencyEscalation_init (lit ''script''))
       (lit ''vm_1'') 5 (Some (lit ''Emergency'')) (lit ''chest pain'') (Some (lit ''0412345678''))
       (lit ''t0'', lit ''t1'', lit ''t2''))) = Voice_Alert_Sent
   \<and> actions_taken (fst (process_escalation (EmergencyEscalation_init (lit ''script''))
       (lit ''vm_1'') 5 (Some (lit ''Emergency'')) (lit ''chest pain'') (Some (lit ''0412345678''))
       (lit ''t0'', lit ''t1'', lit ''t2'')))
       = [SMS_Alert_Sent_To_Manager, Voice_Alert_Sent_To_Patient]
   \<and> length (escalation_log (snd (process_escalation (EmergencyEscalation_init (lit ''script''))
       (lit ''vm_1'') 5 (Some (lit ''Emergency'')) (lit ''chest pain'') (Some (lit ''0412345678''))
       (lit ''t0'', lit ''t1'', lit ''t2'')))) = 2
   \<and> escalation_triggered (fst (process_escalation (EmergencyEscalation_init (lit ''script''))
       (lit ''vm_2'') 5 (Some (lit ''Other'')) (lit ''no number'') None
       (lit ''t0'', lit ''t1'', lit ''t2'')))
   \<and> intervention_status (fst (process_escalation (EmergencyEscalation_init (lit ''script''))
       (lit ''vm_2'') 5 (Some (lit ''Other'')) (lit ''no number'') None
       (lit ''t0'', lit ''t1'', lit ''t2''))) = SMS_Alert_Only
   \<and> actions_taken (fst (process_escalation (EmergencyEscalation_init (lit ''script''))
       (lit ''vm_2'') 5 (Some (lit ''Other'')) (lit ''no number'') None
       (lit ''t0'', lit ''t1'', lit ''t2''))) = [SMS_Alert_Sent_To_Manager]
   \<and> length (escalation_log (snd (process_escalation (EmergencyEscalation_init (lit ''script''))
       (lit ''vm_2'') 5 (Some (lit ''Other'')) (lit ''no number'') None
       (lit ''t0'', lit ''t1'', lit ''t2'')))) = 1"
proof -
  let ?r1 = "process_escalation (EmergencyEscalation_init (lit ''script''))
       (lit ''vm_1'') 5 (Some (lit ''Emergency'')) (lit ''chest pain'') (Some (lit ''0412345678''))
       (lit ''t0'', lit ''t1'', lit ''t2'')"
  let ?r2 = "process_escalation (EmergencyEscalation_init (lit ''script''))
       (lit ''vm_2'') 5 (Some (lit ''Other'')) (lit ''no number'') None
       (lit ''t0'', lit ''t1'', lit ''t2'')"
  have l: "escalation_log (EmergencyEscalation_init (lit ''script'')) = []"
    by (simp add: EmergencyEscalation_init_def)
  have p: "truthy (Some (lit ''0412345678''))"
    by (simp add: lit_def)
  have a: "escalation_triggered (fst ?r1)"
    by (simp add: process_escalation_def should_escalate_def send_sms_to_manager_def
          trigger_voice_alert_def lit_def)
  note A = process_escalation_outcome [OF a]
  have a1: "actions_taken (fst ?r1) = [SMS_Alert_Sent_To_Manager, Voice_Alert_Sent_To_Patient]"
    using A p by simp
  have a2: "intervention_status (fst ?r1) = Voice_Alert_Sent"
    using A a1 by simp
  have a3: "length (escalation_log (snd ?r1)) = 2"
    using A a1 l by simp
  have b: "escalation_triggered (fst ?r2)"
    by (simp add: process_escalation_def should_escalate_def send_sms_to_manager_def)
  note B = process_escalation_outcome [OF b]
  have b1: "actions_taken (fst ?r2) = [SMS_Alert_Sent_To_Manager]"
    using B by simp
  have b2: "intervention_status (fst ?r2) = SMS_Alert_Only"
    using B b1 by simp
  have b3: "length (escalation_log (snd ?r2)) = 1"
    using B b1 l by simp
  show ?thesis
    using a a1 a2 a3 b b1 b2 b3 by simp
qed

text \<open>
  C10, as the code has it. An escalation that is not triggered leaves the
  \<open>EmergencyEscalation\<close> object as it was. A triggered one changes nothing but the
  escalation log, to which it appends one entry for the manager notification and, when a
  callback number is available, one for the voice alert.
\<close>

theorem process_escalation_log:
  "snd (process_escalation self vid u i summary phone clock) =
     (if should_escalate u i then
        self\<lparr>escalation_log := escalation_log self
          @ [\<lparr>entry_type = lit ''sms'', recipient = manager_phone self,
               entry_voicemail_id = vid, entry_timestamp = fst (snd clock),
               entry_status = lit ''sent_simulated''\<rparr>]
          @ (if truthy phone
             then [\<lparr>entry_type = lit ''voice_alert'', recipient = the phone,
                     entry_voicemail_id = vid, entry_timestamp = snd (snd clock),
                     entry_status = lit ''sent_simulated''\<rparr>]
             else [])\<rparr>
      else self)"
  by (simp add: process_escalation_def send_sms_to_manager_def trigger_voice_alert_def Let_def
        split: prod.splits)

theorem process_escalation_log_witness:
  "should_escalate 5 (Some (lit ''Emergency''))
   \<and> snd (process_escalation (EmergencyEscalation_init (lit ''script'')) (lit ''vm_1'') 5
          (Some (lit ''Emergency'')) (lit ''chest pain'') (Some (lit ''0412345678''))
          (lit ''t0'', lit ''t1'', lit ''t2'')) =
       \<lparr>manager_phone = lit ''+61400000001'', emergency_script = lit ''script'',
        escalation_log =
          [\<lparr>entry_type = lit ''sms'', recipient = lit ''+61400000001'',
            entry_voicemail_id = lit ''vm_1'', entry_timestamp = lit ''t1'',
            entry_status = lit ''sent_simulated''\<rparr>,
           \<lparr>entry_type = lit ''voice_alert'', recipient = lit ''0412345678'',
            entry_voicemail_id = lit ''vm_1'', entry_timestamp = lit ''t2'',
            entry_status = lit ''sent_simulated''\<rparr>]\<rparr>
   \<and> \<not> should_escalate 3 (Some (lit ''Booking''))
   \<and> snd (process_escalation (EmergencyEscalation_init (lit ''script'')) (lit ''vm_2'') 3
          (Some (lit ''Booking'')) (lit ''check-up'') (Some (lit ''0412345678''))
          (lit ''t0'', lit ''t1'', lit ''t2'')) = EmergencyEscalation_init (lit ''script'')"
  using process_escalation_log [of "EmergencyEscalation_init (lit ''script'')" "lit ''vm_1''" 5
      "Some (lit ''Emergency'')" "lit ''chest pain''" "Some (lit ''0412345678'')"
      "(lit ''t0'', lit ''t1'', lit ''t2'')"]
    process_escalation_log [of "EmergencyEscalation_init (lit ''script'')" "lit ''vm_2''" 3
      "Some (lit ''Booking'')" "lit ''check-up''" "Some (lit ''0412345678'')"
      "(lit ''t0'', lit ''t1'', lit ''t2'')"]
  by (simp add: should_escalate_def EmergencyEscalation_init_def lit_def)

text \<open>
  C10 as stated fails: after one triggered escalation the shared object holds two log
  entries it did not hold before, so a second call on the same input starts from another
  state.
\<close>

theorem escalation_log_counterexample:
  "length (escalation_log (snd (process_escalation (EmergencyEscalation_init (lit ''script''))
       (lit ''vm_1'') 5 (Some (lit ''Emergency'')) (lit ''chest pain'') (Some (lit ''0412345678''))
       (lit ''t0'', lit ''t1'', lit ''t2'')))) = 2
   \<and> escalation_log (EmergencyEscalation_init (lit ''script'')) = []"
  by (simp add: process_escalation_def should_escalate_def send_sms_to_manager_def
        trigger_voice_alert_def EmergencyEscalation_init_def lit_def)

section \<open>Routing: the four-tier cascade\<close>

lemma extract_location_in_find:
  "extract_location_in ls low =
     map_option loc_id (find (\<lambda>l. list_ex (\<lambda>k. contains k low) (loc_keywords l)) ls)"
  by (induction ls) auto

lemma extract_doctor_in_find:
  "extract_doctor_in ds low =
     (case find (\<lambda>d. list_ex (\<lambda>k. contains k low) (doc_aliases d)) ds of
        None \<Rightarrow> (None, None)
      | Some d \<Rightarrow> (Some (doc_name d), Some (doc_location d)))"
  by (induction ds) auto

lemma extract_location_hit:
  "extract_location svc t = map_option loc_id (site_hit svc t)"
  by (simp add: extract_location_def site_hit_def extract_location_in_find)

lemma extract_doctor_hit:
  "extract_doctor svc t =
     (case clinician_hit svc t of
        None \<Rightarrow> (None, None)
      | Some d \<Rightarrow> (Some (doc_name d), Some (doc_location d)))"
  by (simp add: extract_doctor_def clinician_hit_def extract_doctor_in_find)

lemma get_location_name_find:
  "get_location_name svc i = map_option loc_name (find (\<lambda>l. loc_id l = i) (locations svc))"
proof -
  have "get_location_name_in ls i = map_option loc_name (find (\<lambda>l. loc_id l = i) ls)" for ls
    by (induction ls) auto
  then show ?thesis by (simp add: get_location_name_def)
qed

lemma reasons_distinct:
  "lit ''location_mentioned'' \<noteq> lit ''doctor_association''"
  "lit ''location_mentioned'' \<noteq> lit ''patient_history''"
  "lit ''location_mentioned'' \<noteq> lit ''unassigned''"
  "lit ''doctor_association'' \<noteq> lit ''patient_history''"
  "lit ''doctor_association'' \<noteq> lit ''unassigned''"
  "lit ''patient_history'' \<noteq> lit ''unassigned''"
  by (simp_all add: lit_def)

lemma route_tier1:
  "site_hit svc t = Some l \<Longrightarrow> loc_id l \<noteq> [] \<Longrightarrow>
     route_voicemail svc t m =
       \<lparr>assigned_location = Some (loc_id l), location_name = get_location_name svc (loc_id l),
        confidence = 0.95, routing_reason = lit ''location_mentioned'', mentioned_doctor = None,
        mentioned_location = get_location_name svc (loc_id l)\<rparr>"
  by (simp add: route_voicemail_def Let_def extract_location_hit)

lemma route_tier2:
  "\<not> truthy (map_option loc_id (site_hit svc t)) \<Longrightarrow>
   clinician_hit svc t = Some d \<Longrightarrow> doc_location d \<noteq> [] \<Longrightarrow>
     route_voicemail svc t m =
       \<lparr>assigned_location = Some (doc_location d),
        location_name = get_location_name svc (doc_location d),
        confidence = 0.85, routing_reason = lit ''doctor_association'',
        mentioned_doctor = Some (doc_name d), mentioned_location = None\<rparr>"
  by (simp add: route_voicemail_def Let_def extract_location_hit extract_doctor_hit)

lemma route_tier3:
  "\<not> truthy (map_option loc_id (site_hit svc t)) \<Longrightarrow>
   \<not> truthy (map_option doc_location (clinician_hit svc t)) \<Longrightarrow>
   num \<noteq> [] \<Longrightarrow> map_of (patient_history svc) num = Some site \<Longrightarrow>
     route_voicemail svc t (Some num) =
       \<lparr>assigned_location = Some site, location_name = get_location_name svc site,
        confidence = 0.75, routing_reason = lit ''patient_history'',
        mentioned_doctor = None, mentioned_location = None\<rparr>"
  by (cases "clinician_hit svc t")
     (auto simp: route_voicemail_def Let_def extract_location_hit extract_doctor_hit
        dest: map_of_SomeD intro: image_eqI [where x = "(num, site)"])

lemma route_tier4:
  "\<not> truthy (map_option loc_id (site_hit svc t)) \<Longrightarrow>
   \<not> truthy (map_option doc_location (clinician_hit svc t)) \<Longrightarrow>
   \<not> (truthy m \<and> map_of (patient_history svc) (the m) \<noteq> None) \<Longrightarrow>
     route_voicemail svc t m =
       \<lparr>assigned_location = None, location_name = None,
        confidence = 0.0, routing_reason = lit ''unassigned'',
        mentioned_doctor = map_option doc_name (clinician_hit svc t),
        mentioned_location = None\<rparr>"
  by (cases "clinician_hit svc t")
     (auto simp: route_voicemail_def Let_def extract_location_hit extract_doctor_hit
        map_of_eq_None_iff)

lemma route_confidence:
  "confidence (route_voicemail svc t m) \<in> {0.95, 0.85, 0.75, 0.0}
   \<and> confidence (route_voicemail svc t m) = tier_confidence (routing_reason (route_voicemail svc t m))"
  by (auto simp: route_voicemail_def Let_def tier_confidence_def reasons_distinct
        reasons_distinct [symmetric] split: prod.splits)

text \<open>
  C6: \<open>route_voicemail\<close> is a cascade that stops at the first tier with a result, for any
  reference data. Tier 1: when a site keyword occurs in the lower-cased transcript, the
  first such site of the directory is assigned (its id must be a non-empty string, as
  every id of the module's directory is), with confidence 0.95 and the reason the source
  calls \<open>location_mentioned\<close>. Tier 2: otherwise, when a clinician alias occurs, the first
  such clinician is reported and the home site of that clinician is assigned, with
  confidence 0.85 and reason \<open>doctor_association\<close>. Tier 3: otherwise a supplied number
  found in the patient history gives the site stored for it, with confidence 0.75 and
  reason \<open>patient_history\<close>. Tier 4: otherwise no site is assigned, confidence is 0.0, the
  reason is \<open>unassigned\<close>, and a clinician whose alias occurs is still reported. The
  confidence is always one of the four tier values, the one that belongs to the reason.
  The display name is the name of the first directory entry with the assigned id.
\<close>

theorem route_voicemail_cascade:
  "(\<forall>l. site_hit svc t = Some l \<and> loc_id l \<noteq> [] \<longrightarrow>
       route_voicemail svc t m =
         \<lparr>assigned_location = Some (loc_id l), location_name = get_location_name svc (loc_id l),
          confidence = 0.95, routing_reason = lit ''location_mentioned'',
          mentioned_doctor = None, mentioned_location = get_location_name svc (loc_id l)\<rparr>)
   \<and> (\<forall>d. \<not> truthy (map_option loc_id (site_hit svc t))
         \<and> clinician_hit svc t = Some d \<and> doc_location d \<noteq> [] \<longrightarrow>
       route_voicemail svc t m =
         \<lparr>assigned_location = Some (doc_location d),
          location_name = get_location_name svc (doc_location d),
          confidence = 0.85, routing_reason = lit ''doctor_association'',
          mentioned_doctor = Some (doc_name d), mentioned_location = None\<rparr>)
   \<and> (\<forall>num site. \<not> truthy (map_option loc_id (site_hit svc t))
         \<and> \<not> truthy (map_option doc_location (clinician_hit svc t))
         \<and> m = Some num \<and> num \<noteq> [] \<and> map_of (patient_history svc) num = Some site \<longrightarrow>
       route_voicemail svc t m =
         \<lparr>assigned_location = Some site, location_name = get_location_name svc site,
          confidence = 0.75, routing_reason = lit ''patient_history'',
          mentioned_doctor = None, mentioned_location = None\<rparr>)
   \<and> (\<not> truthy (map_option loc_id (site_hit svc t))
         \<and> \<not> truthy (map_option doc_location (clinician_hit svc t))
         \<and> \<not> (truthy m \<and> map_of (patient_history svc) (the m) \<noteq> None) \<longrightarrow>
       route_voicemail svc t m =
         \<lparr>assigned_location = None, location_name = None,
          confidence = 0.0, routing_reason = lit ''unassigned'',
          mentioned_doctor = map_option doc_name (clinician_hit svc t),
          mentioned_location = None\<rparr>)
   \<and> confidence (route_voicemail svc t m) \<in> {0.95, 0.85, 0.75, 0.0}
   \<and> confidence (route_voicemail svc t m) = tier_confidence (routing_reason (route_voicemail svc t m))
   \<and> get_location_name svc site_id
       = map_option loc_name (find (\<lambda>l. loc_id l = site_id) (locations svc))
   \<and> (\<forall>l \<in> set (locations smart_routing). loc_id l \<noteq> [])
   \<and> (\<forall>d \<in> set (doctors smart_routing). doc_location d \<noteq> [])"
proof -
  have ids: "(\<forall>l \<in> set (locations smart_routing). loc_id l \<noteq> [])
      \<and> (\<forall>d \<in> set (doctors smart_routing). doc_location d \<noteq> [])"
    by (simp add: smart_routing_def CLINIC_LOCATIONS_def KNOWN_DOCTORS_def lit_def)
  show ?thesis
    using route_tier1 [of svc t _ m] route_tier2 [of svc t _ m] route_tier3 [of svc t]
      route_tier4 [of svc t m] route_confidence [of svc t m] get_location_name_find [of svc site_id]
      ids
    by blast
qed

theorem route_voicemail_cascade_witness:
  "route_voicemail smart_routing (lit ''See you at the Harbour, Dr Wong is away'') None =
     \<lparr>assigned_location = Some (lit ''harbour''),
      location_name = Some (lit ''Harbour Medical Centre''),
      confidence = 0.95, routing_reason = lit ''location_mentioned'', mentioned_doctor = None,
      mentioned_location = Some (lit ''Harbour Medical Centre'')\<rparr>
   \<and> route_voicemail smart_routing (lit ''Please ask Dr Wong to call me'') None =
     \<lparr>assigned_location = Some (lit ''sunset''),
      location_name = Some (lit ''Sunset Family Practice''),
      confidence = 0.85, routing_reason = lit ''doctor_association'',
      mentioned_doctor = Some (lit ''Dr. Michael Wong''), mentioned_location = None\<rparr>
   \<and> route_voicemail smart_routing (lit ''I need a refill'') (Some (lit ''4567890123'')) =
     \<lparr>assigned_location = Some (lit ''central''),
      location_name = Some (lit ''Central City Clinic''),
      confidence = 0.75, routing_reason = lit ''patient_history'',
      mentioned_doctor = None, mentioned_location = None\<rparr>
   \<and> route_voicemail smart_routing (lit ''I need a refill'') (Some (lit ''2222222222'')) =
     \<lparr>assigned_location = None, location_name = None,
      confidence = 0.0, routing_reason = lit ''unassigned'',
      mentioned_doctor = None, mentioned_location = None\<rparr>
   \<and> route_voicemail
       (smart_routing\<lparr>doctors := [\<lparr>doc_name = lit ''Dr. Alex Locum'', doc_location = [],
                                    doc_aliases = [lit ''locum'']\<rparr>]\<rparr>)
       (lit ''The locum told me to ring'') None =
     \<lparr>assigned_location = None, location_name = None,
      confidence = 0.0, routing_reason = lit ''unassigned'',
      mentioned_doctor = Some (lit ''Dr. Alex Locum''), mentioned_location = None\<rparr>"
proof -
  let ?locum = "smart_routing\<lparr>doctors := [\<lparr>doc_name = lit ''Dr. Alex Locum'', doc_location = [],
                                    doc_aliases = [lit ''locum'']\<rparr>]\<rparr>"
  have s1: "site_hit smart_routing (lit ''See you at the Harbour, Dr Wong is away'')
              = Some \<lparr>loc_id = lit ''harbour'', loc_name = lit ''Harbour Medical Centre'',
                      loc_keywords = map lit [''harbour'', ''harbor'', ''waterfront'', ''bay'']\<rparr>"
    by code_simp
  have n1: "get_location_name smart_routing (lit ''harbour'') = Some (lit ''Harbour Medical Centre'')"
    by code_simp
  have s2: "site_hit smart_routing (lit ''Please ask Dr Wong to call me'') = None"
    by code_simp
  have c2: "clinician_hit smart_routing (lit ''Please ask Dr Wong to call me'')
              = Some \<lparr>doc_name = lit ''Dr. Michael Wong'', doc_location = lit ''sunset'',
                      doc_aliases = map lit [''dr wong'', ''michael wong'', ''wong'']\<rparr>"
    by code_simp
  have n2: "get_location_name smart_routing (lit ''sunset'') = Some (lit ''Sunset Family Practice'')"
    by code_simp
  have s3: "site_hit smart_routing (lit ''I need a refill'') = None"
    by code_simp
  have c3: "clinician_hit smart_routing (lit ''I need a refill'') = None"
    by code_simp
  have h3: "map_of (patient_history smart_routing) (lit ''4567890123'') = Some (lit ''central'')"
    by code_simp
  have n3: "get_location_name smart_routing (lit ''central'') = Some (lit ''Central City Clinic'')"
    by code_simp
  have h4: "map_of (patient_history smart_routing) (lit ''2222222222'') = None"
    by code_simp
  have s5: "site_hit ?locum (lit ''The locum told me to ring'') = None"
    by code_simp
  have c5: "clinician_hit ?locum (lit ''The locum told me to ring'')
              = Some \<lparr>doc_name = lit ''Dr. Alex Locum'', doc_location = [],
                      doc_aliases = [lit ''locum'']\<rparr>"
    by code_simp
  have ne: "lit ''harbour'' \<noteq> []" "lit ''sunset'' \<noteq> []" "lit ''4567890123'' \<noteq> []"
    by (simp_all add: lit_def)
  have w1: "route_voicemail smart_routing (lit ''See you at the Harbour, Dr Wong is away'') None =
     \<lparr>assigned_location = Some (lit ''harbour''),
      location_name = Some (lit ''Harbour Medical Centre''),
      confidence = 0.95, routing_reason = lit ''location_mentioned'', mentioned_doctor = None,
      mentioned_location = Some (lit ''Harbour Medical Centre'')\<rparr>"
    using route_voicemail_cascade [of smart_routing "lit ''See you at the Harbour, Dr Wong is away''" None]
    by (simp add: s1 n1 ne)
  have w2: "route_voicemail smart_routing (lit ''Please ask Dr Wong to call me'') None =
     \<lparr>assigned_location = Some (lit ''sunset''),
      location_name = Some (lit ''Sunset Family Practice''),
      confidence = 0.85, routing_reason = lit ''doctor_association'',
      mentioned_doctor = Some (lit ''Dr. Michael Wong''), mentioned_location = None\<rparr>"
    using route_voicemail_cascade [of smart_routing "lit ''Please ask Dr Wong to call me''" None]
    by (simp add: s2 c2 n2 ne)
  have w3: "route_voicemail smart_routing (lit ''I need a refill'') (Some (lit ''4567890123'')) =
     \<lparr>assigned_location = Some (lit ''central''),
      location_name = Some (lit ''Central City Clinic''),
      confidence = 0.75, routing_reason = lit ''patient_history'',
      mentioned_doctor = None, mentioned_location = None\<rparr>"
    using route_voicemail_cascade [of smart_routing "lit ''I need a refill''" "Some (lit ''4567890123'')"]
    by (simp add: s3 c3 h3 n3 ne)
  have w4: "route_voicemail smart_routing (lit ''I need a refill'') (Some (lit ''2222222222'')) =
     \<lparr>assigned_location = None, location_name = None,
      confidence = 0.0, routing_reason = lit ''unassigned'',
      mentioned_doctor = None, mentioned_location = None\<rparr>"
    using route_voicemail_cascade [of smart_routing "lit ''I need a refill''" "Some (lit ''2222222222'')"]
    by (simp add: s3 c3 h4)
  have w5: "route_voicemail ?locum (lit ''The locum told me to ring'') None =
     \<lparr>assigned_location = None, location_name = None,
      confidence = 0.0, routing_reason = lit ''unassigned'',
      mentioned_doctor = Some (lit ''Dr. Alex Locum''), mentioned_location = None\<rparr>"
    using route_voicemail_cascade [of ?locum "lit ''The locum told me to ring''" None]
    by (simp add: s5 c5)
  show ?thesis using w1 w2 w3 w4 w5 by simp
qed

section \<open>The classifier's response\<close>

lemma starts_with_append: "starts_with (a @ b) s \<Longrightarrow> starts_with a s"
proof (induction a arbitrary: s)
  case Nil
  then show ?case by simp
next
  case (Cons x a)
  then show ?case by (cases s) auto
qed

lemma fence_in_fence_json: "contains fence_json r \<Longrightarrow> contains fence r"
proof (induction r)
  case Nil
  then show ?case by (simp add: fence_json_def lit_def)
next
  case (Cons y ys)
  have "fence_json = fence @ lit ''json''"
    by (simp add: fence_json_def fence_def lit_def)
  then have "starts_with fence_json s \<Longrightarrow> starts_with fence s" for s
    using starts_with_append by metis
  with Cons show ?case by auto
qed

text \<open>
  C7 fails on partial data. When the decoded response is an object without the key
  \<open>urgency\<close>, validation leaves it without one and step 4 of \<open>triage\<close> raises
  \<open>KeyError\<close> at \<open>triage_data["urgency"]["level"]\<close>: no triage record is produced.
\<close>

theorem missing_urgency_raises:
  assumes "\<not> contains fence response"
    and "loads (py_strip response) = Some (JObj kvs)"
    and "map_of kvs (lit ''urgency'') = None"
  shows "triage_step4 loads response = Inl KeyError"
proof -
  have "\<not> contains fence_json response"
    using assms(1) fence_in_fence_json by blast
  then have p: "parse_triage_response loads response = Inr (JObj kvs)"
    using assms(1,2) by (simp add: parse_triage_response_def)
  have k: "lit ''urgency'' \<noteq> lit ''intent''"
    by (simp add: lit_def)
  have "map_of (dict_set kvs' k v) k' = (if k' = k then Some v else map_of kvs' k')" for kvs' k v k'
    by (induction kvs' k v rule: dict_set.induct) auto
  then have "map_of (normalize_intent kvs) (lit ''urgency'') = None"
    using assms(3) k by (auto simp: normalize_intent_def split: option.splits json.splits)
  then show ?thesis
    using p assms(3) by (simp add: triage_step4_def clamp_urgency_def)
qed

theorem missing_urgency_raises_witness:
  "\<not> contains fence (lit ''{}'') \<and> loads_empty_object (py_strip (lit ''{}'')) = Some (JObj [])
   \<and> triage_step4 loads_empty_object (lit ''{}'') = Inl KeyError"
proof -
  have a: "\<not> contains fence (lit ''{}'')" by code_simp
  have b: "loads_empty_object (py_strip (lit ''{}'')) = Some (JObj [])" by code_simp
  show ?thesis
    using a b missing_urgency_raises [of "lit ''{}''" loads_empty_object "[]"] by simp
qed

text \<open>
  The other gap: when the decoder rejects the response and the text between the first
  \<open>{\<close> and the last \<open>}\<close> as well, the handler's own call of the decoder raises.
\<close>

lemma fallback_decode_raises:
  assumes "\<not> contains fence response"
    and "loads (py_strip response) = None"
    and "re_search json_object_pattern response = Some (s, e)"
    and "loads (slice response s e) = None"
  shows "triage_step4 loads response = Inl JSONDecodeError"
proof -
  have "\<not> contains fence_json response"
    using assms(1) fence_in_fence_json by blast
  then show ?thesis
    using assms by (simp add: triage_step4_def parse_triage_response_def)
qed

lemma fallback_decode_raises_example:
  "triage_step4 (\<lambda>_. None) (lit ''{oops}'') = Inl JSONDecodeError"
proof -
  have a: "\<not> contains fence (lit ''{oops}'')" by code_simp
  have b: "re_search json_object_pattern (lit ''{oops}'') = Some (0, 6)" by code_simp
  show ?thesis using fallback_decode_raises [OF a _ b, of "\<lambda>_. None"] by simp
qed

section \<open>What a match consumes\<close>

lemma reps_words:
  "(\<forall>c c'. c' \<in> set (f c) \<longrightarrow> (\<exists>w. snd c = w @ snd c' \<and> L w)) \<Longrightarrow>
   c' \<in> set (reps f m k c) \<Longrightarrow>
     \<exists>ws. snd c = concat ws @ snd c' \<and> m \<le> length ws \<and> list_all L ws"
proof (induction f m k c arbitrary: c' rule: reps.induct)
  case (1 f c)
  then show ?case by (auto intro: exI [where x = "[]"])
next
  case (2 f k c)
  from "2.prems"(2) consider "c' = c" | d where "d \<in> set (f c)" "c' \<in> set (reps f 0 k d)"
    by auto
  then show ?case
  proof cases
    case 1
    then show ?thesis by (auto intro: exI [where x = "[]"])
  next
    case 2
    obtain w where w: "snd c = w @ snd d" "L w" using "2.prems"(1) 2(1) by blast
    obtain ws where ws: "snd d = concat ws @ snd c'" "list_all L ws"
      using "2.IH" [OF 2(1) "2.prems"(1) 2(2)] by blast
    show ?thesis using w ws by (auto intro: exI [where x = "w # ws"])
  qed
next
  case (3 f m k c)
  from "3.prems"(2) obtain d where d: "d \<in> set (f c)" "c' \<in> set (reps f m k d)"
    by auto
  obtain w where w: "snd c = w @ snd d" "L w" using "3.prems"(1) d(1) by blast
  obtain ws where ws: "snd d = concat ws @ snd c'" "m \<le> length ws" "list_all L ws"
    using "3.IH" [OF d(1) "3.prems"(1) d(2)] by blast
  show ?case using w ws by (auto intro: exI [where x = "w # ws"])
qed

lemma ends_lang: "c' \<in> set (ends r c) \<Longrightarrow> \<exists>w. snd c = w @ snd c' \<and> lang r w"
proof (induction r arbitrary: c c')
  case (Sym P)
  then show ?case by (cases "snd c") (auto split: if_splits)
next
  case Eps
  then show ?case by simp
next
  case WordB
  then show ?case by (simp split: if_splits)
next
  case (Seq a b)
  from Seq.prems obtain d where d: "d \<in> set (ends a c)" "c' \<in> set (ends b d)" by auto
  from Seq.IH(1) [OF d(1)] obtain u where u: "snd c = u @ snd d" "lang a u" by blast
  from Seq.IH(2) [OF d(2)] obtain v where v: "snd d = v @ snd c'" "lang b v" by blast
  have "snd c = (u @ v) @ snd c'" using u v by simp
  moreover have "lang (Seq a b) (u @ v)" using u v by auto
  ultimately show ?case by blast
next
  case (Alt a b)
  from Alt.prems have "c' \<in> set (ends a c) \<or> c' \<in> set (ends b c)" by simp
  then show ?case using Alt.IH(1) [of c' c] Alt.IH(2) [of c' c] by auto
next
  case (Rep m n a)
  have "\<forall>c c'. c' \<in> set (ends a c) \<longrightarrow> (\<exists>w. snd c = w @ snd c' \<and> lang a w)"
    using Rep.IH by blast
  then have "\<exists>ws. snd c = concat ws @ snd c' \<and> m \<le> length ws \<and> list_all (lang a) ws"
    using Rep.prems reps_words [of "ends a" "lang a" c' m _ c] by simp
  then show ?case by auto
qed

lemma lang_min_count: "lang r w \<Longrightarrow> min_count Q r \<le> length (filter Q w)"
proof (induction r arbitrary: w)
  case (Rep m n a)
  then obtain ws where ws: "w = concat ws" "m \<le> length ws" "list_all (lang a) ws" by auto
  have "length ws * min_count Q a \<le> length (filter Q (concat ws))"
    using ws(3) Rep.IH by (induction ws) (auto simp: add_le_mono)
  moreover have "m * min_count Q a \<le> length ws * min_count Q a"
    using ws(2) by (rule mult_le_mono1)
  ultimately have "m * min_count Q a \<le> length (filter Q (concat ws))"
    by (rule le_trans [rotated])
  then show ?case using ws(1) by simp
next
  case (Seq a b)
  then show ?case by (auto simp: add_le_mono)
next
  case (Alt a b)
  then show ?case by (auto simp: min_le_iff_disj)
qed auto

lemma lang_avoids: "avoids bad r \<Longrightarrow> lang r w \<Longrightarrow> x \<in> set w \<Longrightarrow> x \<notin> set bad"
proof (induction r arbitrary: w)
  case (Sym P)
  then show ?case by (auto simp: list_all_iff)
next
  case (Seq a b)
  then show ?case by fastforce
next
  case (Alt a b)
  then show ?case by fastforce
next
  case (Rep m n a)
  then show ?case by (fastforce simp: list_all_iff)
qed auto

lemma finditer_from_spans:
  "(s, e) \<in> set (finditer_from r c pos) \<Longrightarrow>
     \<exists>pre w rest. snd c = pre @ w @ rest \<and> s = pos + length pre \<and> e = s + length w \<and> lang r w"
proof (induction r c pos arbitrary: s e rule: finditer_from.induct)
  case (1 r c pos)
  show ?case
  proof (cases "ends r c")
    case Nil
    show ?thesis
    proof (cases "snd c")
      case Nil2: Nil
      with Nil "1.prems" show ?thesis by (simp add: finditer_from.simps [of r c pos])
    next
      case (Cons u us)
      with Nil "1.prems" have "(s, e) \<in> set (finditer_from r (Some u, us) (Suc pos))"
        by (simp add: finditer_from.simps [of r c pos])
      from "1.IH"(1) [OF Nil Cons this] obtain pre w rest
        where "us = pre @ w @ rest" "s = Suc pos + length pre" "e = s + length w" "lang r w"
        by auto
      then show ?thesis using Cons
        by (intro exI [of _ "u # pre"] exI [of _ w] exI [of _ rest]) simp
    qed
  next
    case (Cons c' cs)
    then obtain w where w: "snd c = w @ snd c'" "lang r w"
      using ends_lang [of c' r c] by auto
    have n: "length (snd c) - length (snd c') = length w" using w(1) by simp
    have mem: "(s, e) = (pos, pos + length w)
        \<or> (length (snd c') < length (snd c) \<and> (s, e) \<in> set (finditer_from r c' (pos + length w)))
        \<or> (\<not> length (snd c') < length (snd c)
            \<and> (s, e) \<in> set (case snd c of [] \<Rightarrow> []
                                 | u # us \<Rightarrow> finditer_from r (Some u, us) (Suc pos)))"
      using "1.prems" Cons by (auto simp: finditer_from.simps [of r c pos] n split: if_splits)
    then consider
        (first) "s = pos" "e = pos + length w"
      | (later) "length (snd c') < length (snd c)"
          "(s, e) \<in> set (finditer_from r c' (pos + length w))"
      | (stuck) u us where "\<not> length (snd c') < length (snd c)" "snd c = u # us"
          "(s, e) \<in> set (finditer_from r (Some u, us) (Suc pos))"
      by (cases "snd c") auto
    then show ?thesis
    proof cases
      case first
      then show ?thesis using w
        by (intro exI [of _ "[]"] exI [of _ w] exI [of _ "snd c'"]) simp
    next
      case later
      have "(s, e) \<in> set (finditer_from r c' (pos + (length (snd c) - length (snd c'))))"
        using later(2) n by simp
      from "1.IH"(2) [OF Cons later(1) this] n obtain pre w' rest
        where "snd c' = pre @ w' @ rest" "s = pos + length w + length pre" "e = s + length w'"
          "lang r w'"
        by auto
      then show ?thesis using w
        by (intro exI [of _ "w @ pre"] exI [of _ w'] exI [of _ rest]) simp
    next
      case stuck
      from "1.IH"(3) [OF Cons stuck(1) stuck(2) stuck(3)] obtain pre w' rest
        where "us = pre @ w' @ rest" "s = Suc pos + length pre" "e = s + length w'" "lang r w'"
        by auto
      then show ?thesis using stuck(2)
        by (intro exI [of _ "u # pre"] exI [of _ w'] exI [of _ rest]) simp
    qed
  qed
qed

lemma finditer_spans:
  assumes "(s, e) \<in> set (finditer r t)"
  shows "s \<le> e \<and> e \<le> length t \<and> lang r (slice t s e)"
proof -
  from assms obtain pre w rest
    where "t = pre @ w @ rest" "s = length pre" "e = s + length w" "lang r w"
    using finditer_from_spans [of s e r "(None, t)" 0] by (auto simp: finditer_def)
  then show ?thesis by (simp add: slice_def)
qed

end
